theory Spec2Isabelle
  imports Complex_Main
begin

section \<open>Order numbers (orders route, \<open>generateOrderNumber\<close>)\<close>

text \<open>
  \<^verbatim>\<open>
  function generateOrderNumber() {
    const prefix = 'ORD';
    const timestamp = Date.now().toString(36).toUpperCase();
    const random = Math.random().toString(36).substring(2, 6).toUpperCase();
    return `${prefix}-${timestamp}-${random}`;
  }
  \<close>
  The two impure reads are arguments of the model: \<open>now\<close> is the value of
  \<open>Date.now()\<close>, a natural number of milliseconds, and \<open>ds\<close> is the value of
  \<open>Math.random()\<close>, given by the base-36 digits that \<open>Number.prototype.toString(36)\<close>
  prints after the radix point (no digit at all for the value 0, which prints as \<open>0\<close>; the
  single digit 18 for the value 0.5, which prints as \<open>0.i\<close>).
\<close>

definition digit36 :: "nat \<Rightarrow> char" where
  "digit36 d = ''0123456789abcdefghijklmnopqrstuvwxyz'' ! d"

function toString36 :: "nat \<Rightarrow> string" where
  "toString36 n = (if n < 36 then [digit36 n] else toString36 (n div 36) @ [digit36 (n mod 36)])"
  by pat_completeness auto
termination
  by (relation "measure (\<lambda>n. n)") auto

declare toString36.simps [simp del]

text \<open>\<open>Number.prototype.toString(36)\<close> on a value of \<open>[0, 1)\<close> with fraction digits \<open>ds\<close>.\<close>

definition fractionToString36 :: "nat list \<Rightarrow> string" where
  "fractionToString36 ds = (if ds = [] then ''0'' else ''0.'' @ map digit36 ds)"

text \<open>\<open>String.prototype.substring(start, end)\<close> for \<open>start \<le> end\<close>.\<close>

definition substring :: "nat \<Rightarrow> nat \<Rightarrow> string \<Rightarrow> string" where
  "substring start end s = take (end - start) (drop start s)"

text \<open>\<open>toUpperCase\<close> on the ASCII range, which holds every base-36 digit.\<close>

definition upperChar :: "char \<Rightarrow> char" where
  "upperChar c =
     (case map_of (zip ''abcdefghijklmnopqrstuvwxyz'' ''ABCDEFGHIJKLMNOPQRSTUVWXYZ'') c of
        Some u \<Rightarrow> u
      | None \<Rightarrow> c)"

definition toUpperCase :: "string \<Rightarrow> string" where
  "toUpperCase s = map upperChar s"

definition generateOrderNumber :: "nat \<Rightarrow> nat list \<Rightarrow> string" where
  "generateOrderNumber now ds =
     (let prefix = ''ORD'';
          timestamp = toUpperCase (toString36 now);
          random = toUpperCase (substring 2 6 (fractionToString36 ds))
      in prefix @ ''-'' @ timestamp @ ''-'' @ random)"

text \<open>The part of an order number after its last hyphen.\<close>

definition suffixOf :: "string \<Rightarrow> string" where
  "suffixOf s = rev (takeWhile (\<lambda>c. c \<noteq> CHR ''-'') (rev s))"

section \<open>Numbers\<close>

text \<open>
  A JavaScript number is an IEEE 754 double: a finite value, an infinity or \<open>NaN\<close>. A finite
  double is kept as the rational it denotes, and the two zeros are one value (they differ only
  in the sign of a zero result and in division, which order creation does not use). The same
  type holds the numbers of the database, whose decimals have \<open>NaN\<close> and the infinities too.
\<close>

datatype number = Finite rat | PosInfinity | NegInfinity | NaN

text \<open>
  Numerals and \<open>+\<close> on numbers are exact: \<open>+\<close> is the addition of SQL decimals, as in
  \<open>total_spent + $1\<close>. The operators of JavaScript, which round, are \<open>js_plus\<close> and
  \<open>js_times\<close> below.
\<close>

instantiation number :: "{zero, one, plus}"
begin

definition zero_number :: number where
  "zero_number = Finite 0"

definition one_number :: number where
  "one_number = Finite 1"

fun plus_number :: "number \<Rightarrow> number \<Rightarrow> number" where
  "plus_number (Finite a) (Finite b) = Finite (a + b)"
| "plus_number NaN y = NaN"
| "plus_number x NaN = NaN"
| "plus_number PosInfinity NegInfinity = NaN"
| "plus_number NegInfinity PosInfinity = NaN"
| "plus_number PosInfinity y = PosInfinity"
| "plus_number x PosInfinity = PosInfinity"
| "plus_number NegInfinity y = NegInfinity"
| "plus_number x NegInfinity = NegInfinity"

instance ..

end

instance number :: semigroup_add
proof
  fix a b c :: number
  show "a + b + c = a + (b + c)"
    by (cases a; cases b; cases c) (simp_all add: add.assoc)
qed

instance number :: numeral ..

text \<open>The exact product, with the rules of IEEE 754 for the infinities.\<close>

fun exact_times :: "number \<Rightarrow> number \<Rightarrow> number" where
  "exact_times (Finite a) (Finite b) = Finite (a * b)"
| "exact_times NaN y = NaN"
| "exact_times x NaN = NaN"
| "exact_times (Finite a) PosInfinity =
     (if a = 0 then NaN else if 0 < a then PosInfinity else NegInfinity)"
| "exact_times (Finite a) NegInfinity =
     (if a = 0 then NaN else if 0 < a then NegInfinity else PosInfinity)"
| "exact_times PosInfinity (Finite b) =
     (if b = 0 then NaN else if 0 < b then PosInfinity else NegInfinity)"
| "exact_times NegInfinity (Finite b) =
     (if b = 0 then NaN else if 0 < b then NegInfinity else PosInfinity)"
| "exact_times PosInfinity PosInfinity = PosInfinity"
| "exact_times PosInfinity NegInfinity = NegInfinity"
| "exact_times NegInfinity PosInfinity = NegInfinity"
| "exact_times NegInfinity NegInfinity = PosInfinity"

text \<open>
  The binary exponent of a positive rational \<open>x\<close> is the \<open>e\<close> with
  \<open>2 ^ e \<le> x < 2 ^ (e + 1)\<close>: the number of halvings that bring \<open>x\<close> below 2, or minus the
  number of doublings that bring it up to 1.
\<close>

function halvings :: "rat \<Rightarrow> nat" where
  "halvings x = (if 2 \<le> x then Suc (halvings (x / 2)) else 0)"
  by auto
termination
proof (relation "measure (\<lambda>x. nat \<lfloor>x\<rfloor>)")
  show "wf (measure (\<lambda>x::rat. nat \<lfloor>x\<rfloor>))" by simp
next
  fix x :: rat
  assume "2 \<le> x"
  then have "x / 2 \<le> x - 1" by simp
  then have "\<lfloor>x / 2\<rfloor> \<le> \<lfloor>x - 1\<rfloor>" by (rule floor_mono)
  moreover have "1 \<le> \<lfloor>x\<rfloor>" using \<open>2 \<le> x\<close> by (simp add: le_floor_iff)
  ultimately show "(x / 2, x) \<in> measure (\<lambda>x. nat \<lfloor>x\<rfloor>)" by simp
qed

function doublings :: "rat \<Rightarrow> nat" where
  "doublings x = (if 0 < x \<and> x < 1 then Suc (doublings (2 * x)) else 0)"
  by auto
termination
proof (relation "measure (\<lambda>x. nat \<lceil>1 / x\<rceil>)")
  show "wf (measure (\<lambda>x::rat. nat \<lceil>1 / x\<rceil>))" by simp
next
  fix x :: rat
  assume a: "0 < x \<and> x < 1"
  then have "1 < 1 / x" by simp
  then have two: "2 \<le> \<lceil>1 / x\<rceil>" by (simp add: le_ceiling_iff)
  have "1 / x \<le> of_int \<lceil>1 / x\<rceil>" by simp
  then have "1 / (2 * x) \<le> of_int \<lceil>1 / x\<rceil> / 2" by simp
  also have "\<dots> \<le> of_int \<lceil>1 / x\<rceil> - 1" using two by (simp add: field_simps)
  finally have "1 / (2 * x) \<le> of_int (\<lceil>1 / x\<rceil> - 1)" by simp
  then have "\<lceil>1 / (2 * x)\<rceil> \<le> \<lceil>1 / x\<rceil> - 1" by (simp only: ceiling_le_iff)
  with two a show "(2 * x, x) \<in> measure (\<lambda>x. nat \<lceil>1 / x\<rceil>)" by simp
qed

declare halvings.simps [simp del] doublings.simps [simp del]

definition binary_exponent :: "rat \<Rightarrow> int" where
  "binary_exponent x = (if 1 \<le> x then int (halvings x) else - int (doublings x))"

definition pow2 :: "int \<Rightarrow> rat" where
  "pow2 e = (if 0 \<le> e then 2 ^ nat e else 1 / 2 ^ nat (- e))"

text \<open>The nearest integer, and the even one of the two when they are equally near.\<close>

definition nearest_even :: "rat \<Rightarrow> int" where
  "nearest_even y =
     (if y - of_int \<lfloor>y\<rfloor> < 1 / 2 then \<lfloor>y\<rfloor>
      else if 1 / 2 < y - of_int \<lfloor>y\<rfloor> then \<lfloor>y\<rfloor> + 1
      else if even \<lfloor>y\<rfloor> then \<lfloor>y\<rfloor> else \<lfloor>y\<rfloor> + 1)"

text \<open>
  Rounding to the nearest double, ties to even. A positive \<open>a\<close> with binary exponent \<open>e\<close>
  is rounded to a multiple of \<open>2 ^ (e - 52)\<close> (53 significant bits), or of \<open>2 ^ - 1074\<close>,
  the spacing of the subnormal doubles, where that is larger; a result of \<open>2 ^ 1024\<close> or
  more is an infinity.
\<close>

definition round_magnitude :: "rat \<Rightarrow> rat" where
  "round_magnitude a =
     (let q = max (binary_exponent a - 52) (- 1074)
      in of_int (nearest_even (a / pow2 q)) * pow2 q)"

definition round_double :: "rat \<Rightarrow> number" where
  "round_double x =
     (if x = 0 then Finite 0
      else if 2 ^ 1024 \<le> round_magnitude \<bar>x\<bar> then (if x < 0 then NegInfinity else PosInfinity)
      else Finite (if x < 0 then - round_magnitude \<bar>x\<bar> else round_magnitude \<bar>x\<bar>))"

definition to_double :: "number \<Rightarrow> number" where
  "to_double x = (case x of Finite r \<Rightarrow> round_double r | _ \<Rightarrow> x)"

text \<open>
  \<open>x + y\<close> and \<open>x * y\<close> of JavaScript: the exact result, rounded. A decimal literal of the
  program or of a JSON body, such as \<open>0.08\<close>, denotes the double nearest to it.
\<close>

definition js_plus :: "number \<Rightarrow> number \<Rightarrow> number" where
  "js_plus x y = to_double (x + y)"

definition js_times :: "number \<Rightarrow> number \<Rightarrow> number" where
  "js_times x y = to_double (exact_times x y)"

definition js_literal :: "rat \<Rightarrow> number" where
  "js_literal r = round_double r"

section \<open>Tables, rows and the database connection\<close>

text \<open>
  The rows of the three tables that order creation touches. The schema files are not part of
  the sources; the columns are those that the statements name. An amount column holds the
  number that was bound to it: the declared precision and scale of the columns are not known.
  Identifiers are integers, nullable columns are options, timestamps are natural numbers.
\<close>

record order_row =
  o_id :: int
  o_customer_id :: "int option"
  o_order_number :: string
  o_subtotal :: number
  o_tax :: number
  o_total :: number
  o_notes :: "string option"
  o_shipping_address :: "string option"
  o_payment_method :: "string option"
  o_status :: string
  o_payment_status :: string
  o_created_at :: nat
  o_updated_at :: nat

record order_item_row =
  i_order_id :: int
  i_product_id :: "int option"
  i_product_name :: "string option"
  i_quantity :: number
  i_unit_price :: number
  i_total_price :: number
  i_created_at :: nat

record customer_row =
  c_id :: int
  c_name :: string
  c_email :: string
  c_phone :: "string option"
  c_segment :: string
  c_notes :: "string option"
  c_total_spent :: number
  c_order_count :: int
  c_created_at :: nat
  c_updated_at :: nat

record tables =
  orders :: "order_row list"
  order_items :: "order_item_row list"
  customers :: "customer_row list"

text \<open>An error object of the database driver: \<open>error.code\<close> and \<open>error.message\<close>.\<close>

record pg_error =
  code :: "string option"
  message :: string

text \<open>
  Which statements fail is not decided by the sources (constraints, connection loss), so it
  is an argument: a fault plan maps the position of a statement among those issued on the
  connection (0 for the first) to the error it raises, or to \<open>None\<close> when it succeeds.
\<close>

type_synonym fault_plan = "nat \<Rightarrow> pg_error option"

datatype statement =
    Begin
  | InsertOrder "int option" string number number number "string option" "string option" "string option"
  | InsertOrderItem int "int option" "string option" number number number
  | UpdateCustomerStats number int
  | Commit
  | Rollback

datatype event = Query statement bool | Respond nat | Release

text \<open>
  A checked-out connection together with the server behind it: the committed tables, the
  working copy of the open transaction (if any), the sequence of order ids (sequences are not
  transactional), the number of statements issued, and the trace of what the handler did.
\<close>

record session =
  committed :: tables
  txn :: "tables option"
  order_seq :: int
  issued :: nat
  trace :: "event list"

definition connect :: "tables \<Rightarrow> int \<Rightarrow> session" where
  "connect db seq = \<lparr>committed = db, txn = None, order_seq = seq, issued = 0, trace = []\<rparr>"

definition current :: "session \<Rightarrow> tables" where
  "current s = (case txn s of Some w \<Rightarrow> w | None \<Rightarrow> committed s)"

text \<open>Outside a transaction block a statement commits by itself.\<close>

definition store :: "tables \<Rightarrow> session \<Rightarrow> session" where
  "store t s = (case txn s of Some _ \<Rightarrow> s\<lparr>txn := Some t\<rparr> | None \<Rightarrow> s\<lparr>committed := t\<rparr>)"

definition bump_customer :: "number \<Rightarrow> nat \<Rightarrow> int \<Rightarrow> customer_row \<Rightarrow> customer_row" where
  "bump_customer amount now cid c =
     (if c_id c = cid
      then c\<lparr>c_order_count := c_order_count c + 1,
             c_total_spent := c_total_spent c + amount,
             c_updated_at := now\<rparr>
      else c)"

text \<open>The effect of a statement that succeeds, and the rows it returns.\<close>

fun apply_statement :: "nat \<Rightarrow> statement \<Rightarrow> session \<Rightarrow> session \<times> order_row list" where
  "apply_statement now Begin s =
     ((if txn s = None then s\<lparr>txn := Some (committed s)\<rparr> else s), [])"
| "apply_statement now (InsertOrder cid num sub tx tot notes addr pay) s =
     (let row = \<lparr>o_id = order_seq s, o_customer_id = cid, o_order_number = num,
                  o_subtotal = sub, o_tax = tx, o_total = tot, o_notes = notes,
                  o_shipping_address = addr, o_payment_method = pay,
                  o_status = ''pending'', o_payment_status = ''unpaid'',
                  o_created_at = now, o_updated_at = now\<rparr>;
          t = current s
      in (store (t\<lparr>orders := orders t @ [row]\<rparr>) (s\<lparr>order_seq := order_seq s + 1\<rparr>), [row]))"
| "apply_statement now (InsertOrderItem oid pid pname qty price tot) s =
     (let row = \<lparr>i_order_id = oid, i_product_id = pid, i_product_name = pname,
                  i_quantity = qty, i_unit_price = price, i_total_price = tot,
                  i_created_at = now\<rparr>;
          t = current s
      in (store (t\<lparr>order_items := order_items t @ [row]\<rparr>) s, []))"
| "apply_statement now (UpdateCustomerStats amount cid) s =
     (let t = current s
      in (store (t\<lparr>customers := map (bump_customer amount now cid) (customers t)\<rparr>) s, []))"
| "apply_statement now Commit s =
     ((case txn s of Some w \<Rightarrow> s\<lparr>committed := w, txn := None\<rparr> | None \<Rightarrow> s), [])"
| "apply_statement now Rollback s = (s\<lparr>txn := None\<rparr>, [])"

text \<open>
  \<open>client.query\<close>: the statement either raises the error of the fault plan or takes
  effect. A failed \<open>COMMIT\<close> ends the transaction without keeping its writes.
\<close>

definition client_query ::
  "fault_plan \<Rightarrow> nat \<Rightarrow> statement \<Rightarrow> session \<Rightarrow> session \<times> (pg_error + order_row list)" where
  "client_query plan now st s =
     (let s1 = s\<lparr>issued := issued s + 1\<rparr>
      in case plan (issued s) of
           Some e \<Rightarrow>
             ((if st = Commit then s1\<lparr>txn := None\<rparr> else s1)
                \<lparr>trace := trace s @ [Query st False]\<rparr>, Inl e)
         | None \<Rightarrow>
             (let (s2, rows) = apply_statement now st s1
              in (s2\<lparr>trace := trace s @ [Query st True]\<rparr>, Inr rows)))"

section \<open>Order creation (orders route, \<open>POST /api/orders\<close>)\<close>

record order_item_input =
  product_id :: "int option"
  product_name :: "string option"
  quantity :: number
  unit_price :: number

text \<open>The request body; \<open>items = None\<close> is a body without the field (or with \<open>null\<close>).\<close>

record order_body =
  customer_id :: "int option"
  items :: "order_item_input list option"
  "notes" :: "string option"
  shipping_address :: "string option"
  payment_method :: "string option"

text \<open>What the handler reads besides the request: the fault plan and the clocks.\<close>

record environment =
  faults :: fault_plan
  sql_now :: nat
  date_now :: nat
  random_digits :: "nat list"

text \<open>The two envelopes: \<open>{success: true, data}\<close> and \<open>{success: false, error}\<close>.\<close>

datatype 'a response = Success nat 'a | Failure nat string

fun status_code :: "'a response \<Rightarrow> nat" where
  "status_code (Success n _) = n"
| "status_code (Failure n _) = n"

definition respond :: "nat \<Rightarrow> session \<Rightarrow> session" where
  "respond n s = s\<lparr>trace := trace s @ [Respond n]\<rparr>"

definition release :: "session \<Rightarrow> session" where
  "release s = s\<lparr>trace := trace s @ [Release]\<rparr>"

text \<open>
  \<^verbatim>\<open>
  let subtotal = 0;
  for (const item of items) { subtotal += item.quantity * item.unit_price; }
  const tax = subtotal * 0.08;
  const total = subtotal + tax;
  \<close>
\<close>

definition calculate_subtotal :: "order_item_input list \<Rightarrow> number" where
  "calculate_subtotal its =
     fold (\<lambda>item subtotal. js_plus subtotal (js_times (quantity item) (unit_price item))) its 0"

definition calculate_tax :: "number \<Rightarrow> number" where
  "calculate_tax subtotal = js_times subtotal (js_literal (8 / 100))"

text \<open>The loop over the items: one \<open>INSERT INTO order_items\<close> each, stopping at the first error.\<close>

fun insert_items ::
  "environment \<Rightarrow> int \<Rightarrow> order_item_input list \<Rightarrow> session \<Rightarrow> session \<times> (pg_error + unit)" where
  "insert_items env oid [] s = (s, Inr ())"
| "insert_items env oid (item # rest) s =
     (case client_query (faults env) (sql_now env)
             (InsertOrderItem oid (product_id item) (product_name item) (quantity item)
                (unit_price item) (js_times (quantity item) (unit_price item))) s of
        (s', Inl e) \<Rightarrow> (s', Inl e)
      | (s', Inr _) \<Rightarrow> insert_items env oid rest s')"

text \<open>\<open>if (customer_id)\<close>: an absent id and the id 0 are falsy.\<close>

definition truthy_id :: "int option \<Rightarrow> bool" where
  "truthy_id cid = (case cid of None \<Rightarrow> False | Some n \<Rightarrow> n \<noteq> 0)"

definition update_customer_stats ::
  "environment \<Rightarrow> number \<Rightarrow> int option \<Rightarrow> session \<Rightarrow> session \<times> (pg_error + unit)" where
  "update_customer_stats env amount cid s =
     (case cid of
        None \<Rightarrow> (s, Inr ())
      | Some n \<Rightarrow>
          if n = 0 then (s, Inr ())
          else (case client_query (faults env) (sql_now env) (UpdateCustomerStats amount n) s of
                  (s', Inl e) \<Rightarrow> (s', Inl e)
                | (s', Inr _) \<Rightarrow> (s', Inr ())))"

definition type_error :: pg_error where
  "type_error = \<lparr>code = None, message = ''Cannot read properties of undefined (reading id)''\<rparr>"

text \<open>The statements after the validation, up to the 201 response.\<close>

definition place_order ::
  "environment \<Rightarrow> order_body \<Rightarrow> order_item_input list \<Rightarrow> session
     \<Rightarrow> session \<times> (pg_error + order_row response)" where
  "place_order env body its s1 =
     (let subtotal = calculate_subtotal its;
          tax = calculate_tax subtotal;
          total_due = js_plus subtotal tax
      in case client_query (faults env) (sql_now env)
                (InsertOrder (customer_id body)
                   (generateOrderNumber (date_now env) (random_digits env))
                   subtotal tax total_due (notes body) (shipping_address body) (payment_method body)) s1 of
           (s2, Inl e) \<Rightarrow> (s2, Inl e)
         | (s2, Inr []) \<Rightarrow> (s2, Inl type_error)
         | (s2, Inr (order # _)) \<Rightarrow>
             (case insert_items env (o_id order) its s2 of
                (s3, Inl e) \<Rightarrow> (s3, Inl e)
              | (s3, Inr _) \<Rightarrow>
                  (case update_customer_stats env total_due (customer_id body) s3 of
                     (s4, Inl e) \<Rightarrow> (s4, Inl e)
                   | (s4, Inr _) \<Rightarrow>
                       (case client_query (faults env) (sql_now env) Commit s4 of
                          (s5, Inl e) \<Rightarrow> (s5, Inl e)
                        | (s5, Inr _) \<Rightarrow> (respond 201 s5, Inr (Success 201 order))))))"

text \<open>The body of \<open>try\<close>: \<open>Inl\<close> is a thrown error, \<open>Inr\<close> the response that was sent.\<close>

definition try_block ::
  "environment \<Rightarrow> order_body \<Rightarrow> session \<Rightarrow> session \<times> (pg_error + order_row response)" where
  "try_block env body s =
     (case client_query (faults env) (sql_now env) Begin s of
        (s1, Inl e) \<Rightarrow> (s1, Inl e)
      | (s1, Inr _) \<Rightarrow>
          (case items body of
             None \<Rightarrow> (respond 400 s1, Inr (Failure 400 ''Order must have at least one item''))
           | Some [] \<Rightarrow> (respond 400 s1, Inr (Failure 400 ''Order must have at least one item''))
           | Some (item # rest) \<Rightarrow> place_order env body (item # rest) s1))"

text \<open>
  The handler: \<open>try\<close>, then \<open>catch\<close> (\<open>ROLLBACK\<close>, then the 500 response; an error of
  \<open>ROLLBACK\<close> itself leaves the handler without a response), then \<open>finally\<close>
  (\<open>client.release()\<close>). The result is the session as released and the response, if any.
\<close>

definition create_order ::
  "environment \<Rightarrow> order_body \<Rightarrow> tables \<Rightarrow> int \<Rightarrow> session \<times> order_row response option" where
  "create_order env body db seq =
     (case try_block env body (connect db seq) of
        (s1, Inr r) \<Rightarrow> (release s1, Some r)
      | (s1, Inl e) \<Rightarrow>
          (case client_query (faults env) (sql_now env) Rollback s1 of
             (s2, Inl e') \<Rightarrow> (release s2, None)
           | (s2, Inr _) \<Rightarrow> (release (respond 500 s2), Some (Failure 500 (message e)))))"

text \<open>
  Reading a trace: an event is \<open>quiet\<close> when it is a statement other than \<open>ROLLBACK\<close>
  that succeeded; \<open>responses\<close> are the status codes sent, in order.
\<close>

fun quiet :: "event \<Rightarrow> bool" where
  "quiet (Query st ok) = (ok \<and> st \<noteq> Rollback)"
| "quiet (Respond n) = False"
| "quiet Release = False"

fun responses :: "event list \<Rightarrow> nat list" where
  "responses [] = []"
| "responses (Respond n # tr) = n # responses tr"
| "responses (_ # tr) = responses tr"

text \<open>A trace of the \<open>try\<close> block that ends in the statement that failed.\<close>

definition failed_at_end :: "event list \<Rightarrow> bool" where
  "failed_at_end tr =
     (tr \<noteq> [] \<and> list_all quiet (butlast tr) \<and>
      (case last tr of Query st ok \<Rightarrow> \<not> ok \<and> st \<noteq> Rollback | _ \<Rightarrow> False))"

text \<open>The row that an \<open>INSERT INTO order_items\<close> of the loop stores for an item.\<close>

definition item_row :: "nat \<Rightarrow> int \<Rightarrow> order_item_input \<Rightarrow> order_item_row" where
  "item_row now oid item =
     \<lparr>i_order_id = oid, i_product_id = product_id item, i_product_name = product_name item,
      i_quantity = quantity item, i_unit_price = unit_price item,
      i_total_price = js_times (quantity item) (unit_price item), i_created_at = now\<rparr>"

text \<open>
  The \<open>INSERT INTO orders\<close> statement with the parameters that the handler binds, and the
  row that it stores when the sequence is at \<open>seq\<close>.
\<close>

definition order_statement ::
  "environment \<Rightarrow> order_body \<Rightarrow> order_item_input list \<Rightarrow> statement" where
  "order_statement env body its =
     InsertOrder (customer_id body) (generateOrderNumber (date_now env) (random_digits env))
       (calculate_subtotal its) (calculate_tax (calculate_subtotal its))
       (js_plus (calculate_subtotal its) (calculate_tax (calculate_subtotal its)))
       (notes body) (shipping_address body) (payment_method body)"

definition new_order ::
  "environment \<Rightarrow> order_body \<Rightarrow> order_item_input list \<Rightarrow> int \<Rightarrow> order_row" where
  "new_order env body its seq =
     \<lparr>o_id = seq, o_customer_id = customer_id body,
      o_order_number = generateOrderNumber (date_now env) (random_digits env),
      o_subtotal = calculate_subtotal its,
      o_tax = calculate_tax (calculate_subtotal its),
      o_total = js_plus (calculate_subtotal its) (calculate_tax (calculate_subtotal its)),
      o_notes = notes body, o_shipping_address = shipping_address body,
      o_payment_method = payment_method body,
      o_status = ''pending'', o_payment_status = ''unpaid'',
      o_created_at = sql_now env, o_updated_at = sql_now env\<rparr>"

subsection \<open>The example of the specification\<close>

text \<open>
  Two items, \<open>{quantity: 2, unit_price: 10}\<close> and \<open>{quantity: 1, unit_price: 5}\<close>, ordered by
  customer 7 while a second customer exists; the database never fails in \<open>example_env\<close>,
  and the third statement (the first item insert) fails in \<open>failing_env\<close>.
\<close>

definition example_items :: "order_item_input list" where
  "example_items =
     [\<lparr>product_id = Some 1, product_name = Some ''Espresso'', quantity = 2, unit_price = 10\<rparr>,
      \<lparr>product_id = Some 2, product_name = Some ''Bagel'', quantity = 1, unit_price = 5\<rparr>]"

definition example_body :: order_body where
  "example_body =
     \<lparr>customer_id = Some 7, items = Some example_items, notes = None,
      shipping_address = None, payment_method = Some ''card''\<rparr>"

definition example_customers :: "customer_row list" where
  "example_customers =
     [\<lparr>c_id = 7, c_name = ''Ada'', c_email = ''ada@example.com'', c_phone = None,
       c_segment = ''new'', c_notes = None, c_total_spent = 10, c_order_count = 1,
       c_created_at = 1, c_updated_at = 1\<rparr>,
      \<lparr>c_id = 8, c_name = ''Bob'', c_email = ''bob@example.com'', c_phone = None,
       c_segment = ''vip'', c_notes = None, c_total_spent = 0, c_order_count = 0,
       c_created_at = 2, c_updated_at = 2\<rparr>]"

definition example_db :: tables where
  "example_db = \<lparr>orders = [], order_items = [], customers = example_customers\<rparr>"

definition no_faults :: fault_plan where
  "no_faults n = None"

definition example_env :: environment where
  "example_env =
     \<lparr>faults = no_faults, sql_now = 1700000000, date_now = 1700000000000,
      random_digits = [18, 3, 35, 10, 4, 5]\<rparr>"

definition foreign_key_violation :: pg_error where
  "foreign_key_violation =
     \<lparr>code = Some ''23503'', message = ''violates foreign key constraint''\<rparr>"

definition failing_env :: environment where
  "failing_env =
     example_env\<lparr>faults := (\<lambda>n. if n = 2 then Some foreign_key_violation else None)\<rparr>"

text \<open>The order row that the example stores.\<close>

definition example_order :: order_row where
  "example_order =
     \<lparr>o_id = 1, o_customer_id = Some 7,
      o_order_number = generateOrderNumber 1700000000000 [18, 3, 35, 10, 4, 5],
      o_subtotal = 25, o_tax = 2, o_total = 27, o_notes = None,
      o_shipping_address = None, o_payment_method = Some ''card'',
      o_status = ''pending'', o_payment_status = ''unpaid'',
      o_created_at = 1700000000, o_updated_at = 1700000000\<rparr>"

subsection \<open>An order whose amounts are rounded\<close>




subsection \<open>A customer with the id 0\<close>

definition zero_customers :: "customer_row list" where
  "zero_customers =
     [\<lparr>c_id = 0, c_name = ''Zoe'', c_email = ''zoe@example.com'', c_phone = None,
       c_segment = ''new'', c_notes = None, c_total_spent = 10, c_order_count = 1,
       c_created_at = 1, c_updated_at = 1\<rparr>]"

definition zero_db :: tables where
  "zero_db = \<lparr>orders = [], order_items = [], customers = zero_customers\<rparr>"

definition zero_body :: order_body where
  "zero_body = example_body\<lparr>customer_id := Some 0\<rparr>"

section \<open>Partial updates (\<open>PUT /:id\<close> of the four routes)\<close>

text \<open>
  Each handler runs one \<open>UPDATE ... SET column = COALESCE($n, column), ..., updated_at = NOW()
  WHERE id = $k RETURNING *\<close> through \<open>pool.query\<close>, outside any transaction. A field of
  the body that is absent (or \<open>null\<close>) is \<open>None\<close>: the driver binds it as \<open>NULL\<close>. The
  argument \<open>rid\<close> is the integer that the database reads from the \<open>id\<close> of the URL; when
  it cannot, or fails for another reason, that is the fault at position 0 of the plan, which
  the handler answers with status 500. The rows of a table are a list, in a fixed order.
\<close>

definition coalesce :: "'a option \<Rightarrow> 'a \<Rightarrow> 'a" where
  "coalesce param column = (case param of Some v \<Rightarrow> v | None \<Rightarrow> column)"

text \<open>The same on a nullable column.\<close>

definition coalesce_null :: "'a option \<Rightarrow> 'a option \<Rightarrow> 'a option" where
  "coalesce_null param column = (case param of Some v \<Rightarrow> Some v | None \<Rightarrow> column)"

text \<open>
  \<open>UPDATE t SET ... WHERE id = $k RETURNING *\<close> followed by the handler's answer: 404 when
  no row was returned, else the first returned row.
\<close>

definition update_where_id ::
  "environment \<Rightarrow> ('r \<Rightarrow> int) \<Rightarrow> ('r \<Rightarrow> 'r) \<Rightarrow> string \<Rightarrow> int \<Rightarrow> 'r list
     \<Rightarrow> 'r list \<times> 'r response" where
  "update_where_id env key assign not_found rid rows =
     (case faults env 0 of
        Some e \<Rightarrow> (rows, Failure 500 (message e))
      | None \<Rightarrow>
          (let rows' = map (\<lambda>r. if key r = rid then assign r else r) rows
           in case filter (\<lambda>r. key r = rid) rows' of
                [] \<Rightarrow> (rows', Failure 404 not_found)
              | r # _ \<Rightarrow> (rows', Success 200 r)))"

subsection \<open>Orders\<close>

record order_update =
  u_status :: "string option"
  u_payment_status :: "string option"
  u_notes :: "string option"

definition set_order :: "order_update \<Rightarrow> nat \<Rightarrow> order_row \<Rightarrow> order_row" where
  "set_order u now r =
     r\<lparr>o_status := coalesce (u_status u) (o_status r),
       o_payment_status := coalesce (u_payment_status u) (o_payment_status r),
       o_notes := coalesce_null (u_notes u) (o_notes r),
       o_updated_at := now\<rparr>"

definition put_order ::
  "environment \<Rightarrow> int \<Rightarrow> order_update \<Rightarrow> order_row list \<Rightarrow> order_row list \<times> order_row response" where
  "put_order env rid u rows =
     update_where_id env o_id (set_order u (sql_now env)) ''Order not found'' rid rows"

subsection \<open>Products\<close>

record product_row =
  p_id :: int
  p_name :: string
  p_description :: "string option"
  p_price :: rat
  p_category :: "string option"
  p_inventory_count :: int
  p_sku :: "string option"
  p_active :: bool
  p_image_url :: "string option"
  p_created_at :: nat
  p_updated_at :: nat

record product_update =
  pu_name :: "string option"
  pu_description :: "string option"
  pu_price :: "rat option"
  pu_category :: "string option"
  pu_inventory_count :: "int option"
  pu_sku :: "string option"
  pu_active :: "bool option"
  pu_image_url :: "string option"

definition set_product :: "product_update \<Rightarrow> nat \<Rightarrow> product_row \<Rightarrow> product_row" where
  "set_product u now r =
     r\<lparr>p_name := coalesce (pu_name u) (p_name r),
       p_description := coalesce_null (pu_description u) (p_description r),
       p_price := coalesce (pu_price u) (p_price r),
       p_category := coalesce_null (pu_category u) (p_category r),
       p_inventory_count := coalesce (pu_inventory_count u) (p_inventory_count r),
       p_sku := coalesce_null (pu_sku u) (p_sku r),
       p_active := coalesce (pu_active u) (p_active r),
       p_image_url := coalesce_null (pu_image_url u) (p_image_url r),
       p_updated_at := now\<rparr>"

definition put_product ::
  "environment \<Rightarrow> int \<Rightarrow> product_update \<Rightarrow> product_row list
     \<Rightarrow> product_row list \<times> product_row response" where
  "put_product env rid u rows =
     update_where_id env p_id (set_product u (sql_now env)) ''Product not found'' rid rows"

subsection \<open>Customers\<close>

record customer_update =
  cu_name :: "string option"
  cu_email :: "string option"
  cu_phone :: "string option"
  cu_segment :: "string option"
  cu_notes :: "string option"
  cu_total_spent :: "number option"
  cu_order_count :: "int option"

definition set_customer :: "customer_update \<Rightarrow> nat \<Rightarrow> customer_row \<Rightarrow> customer_row" where
  "set_customer u now r =
     r\<lparr>c_name := coalesce (cu_name u) (c_name r),
       c_email := coalesce (cu_email u) (c_email r),
       c_phone := coalesce_null (cu_phone u) (c_phone r),
       c_segment := coalesce (cu_segment u) (c_segment r),
       c_notes := coalesce_null (cu_notes u) (c_notes r),
       c_total_spent := coalesce (cu_total_spent u) (c_total_spent r),
       c_order_count := coalesce (cu_order_count u) (c_order_count r),
       c_updated_at := now\<rparr>"

definition put_customer ::
  "environment \<Rightarrow> int \<Rightarrow> customer_update \<Rightarrow> customer_row list
     \<Rightarrow> customer_row list \<times> customer_row response" where
  "put_customer env rid u rows =
     update_where_id env c_id (set_customer u (sql_now env)) ''Customer not found'' rid rows"

subsection \<open>Competitors\<close>

text \<open>
  \<open>top_items\<close> and \<open>sentiment\<close> arrive as JSON values and are stored as the text that
  \<open>JSON.stringify\<close> gives, a built-in that is an argument here; a falsy value is bound as
  \<open>null\<close>.
\<close>

datatype json =
    JNull
  | JBool bool
  | JNumber rat
  | JString string
  | JArray "json list"
  | JObject "(string \<times> json) list"

fun truthy :: "json \<Rightarrow> bool" where
  "truthy JNull = False"
| "truthy (JBool b) = b"
| "truthy (JNumber n) = (n \<noteq> 0)"
| "truthy (JString s) = (s \<noteq> [])"
| "truthy (JArray xs) = True"
| "truthy (JObject kvs) = True"

record competitor_row =
  k_id :: int
  k_name :: string
  k_website :: "string option"
  k_distance :: "rat option"
  k_type :: string
  k_threat_level :: string
  k_rating :: "rat option"
  k_rating_change :: rat
  k_review_count :: int
  k_avg_price :: "rat option"
  k_price_diff :: rat
  k_strengths :: "string option"
  k_weaknesses :: "string option"
  k_top_items :: "string option"
  k_sentiment :: "string option"
  k_notes :: "string option"
  k_created_at :: nat
  k_updated_at :: nat

record competitor_update =
  ku_name :: "string option"
  ku_website :: "string option"
  ku_distance :: "rat option"
  ku_type :: "string option"
  ku_threat_level :: "string option"
  ku_rating :: "rat option"
  ku_rating_change :: "rat option"
  ku_review_count :: "int option"
  ku_avg_price :: "rat option"
  ku_price_diff :: "rat option"
  ku_strengths :: "string option"
  ku_weaknesses :: "string option"
  ku_top_items :: "json option"
  ku_sentiment :: "json option"
  ku_notes :: "string option"

text \<open>\<open>value ? JSON.stringify(value) : null\<close>\<close>

definition stringify_if_truthy :: "(json \<Rightarrow> string) \<Rightarrow> json option \<Rightarrow> string option" where
  "stringify_if_truthy stringify v =
     (case v of
        None \<Rightarrow> None
      | Some j \<Rightarrow> if truthy j then Some (stringify j) else None)"

definition set_competitor ::
  "(json \<Rightarrow> string) \<Rightarrow> competitor_update \<Rightarrow> nat \<Rightarrow> competitor_row \<Rightarrow> competitor_row" where
  "set_competitor stringify u now r =
     r\<lparr>k_name := coalesce (ku_name u) (k_name r),
       k_website := coalesce_null (ku_website u) (k_website r),
       k_distance := coalesce_null (ku_distance u) (k_distance r),
       k_type := coalesce (ku_type u) (k_type r),
       k_threat_level := coalesce (ku_threat_level u) (k_threat_level r),
       k_rating := coalesce_null (ku_rating u) (k_rating r),
       k_rating_change := coalesce (ku_rating_change u) (k_rating_change r),
       k_review_count := coalesce (ku_review_count u) (k_review_count r),
       k_avg_price := coalesce_null (ku_avg_price u) (k_avg_price r),
       k_price_diff := coalesce (ku_price_diff u) (k_price_diff r),
       k_strengths := coalesce_null (ku_strengths u) (k_strengths r),
       k_weaknesses := coalesce_null (ku_weaknesses u) (k_weaknesses r),
       k_top_items :=
         coalesce_null (stringify_if_truthy stringify (ku_top_items u)) (k_top_items r),
       k_sentiment :=
         coalesce_null (stringify_if_truthy stringify (ku_sentiment u)) (k_sentiment r),
       k_notes := coalesce_null (ku_notes u) (k_notes r),
       k_updated_at := now\<rparr>"

definition put_competitor ::
  "(json \<Rightarrow> string) \<Rightarrow> environment \<Rightarrow> int \<Rightarrow> competitor_update \<Rightarrow> competitor_row list
     \<Rightarrow> competitor_row list \<times> competitor_row response" where
  "put_competitor stringify env rid u rows =
     update_where_id env k_id (set_competitor stringify u (sql_now env))
       ''Competitor not found'' rid rows"

subsection \<open>Examples of updates\<close>

definition stored_order :: order_row where
  "stored_order =
     \<lparr>o_id = 5, o_customer_id = Some 7, o_order_number = ''ORD-LOYW3V28-I3ZA'',
      o_subtotal = 25, o_tax = 2, o_total = 27, o_notes = Some ''leave at the door'',
      o_shipping_address = None, o_payment_method = Some ''card'',
      o_status = ''pending'', o_payment_status = ''paid'',
      o_created_at = 1700000000, o_updated_at = 1700000000\<rparr>"

definition only_status :: order_update where
  "only_status = \<lparr>u_status = Some ''completed'', u_payment_status = None, u_notes = None\<rparr>"

definition later_env :: environment where
  "later_env = example_env\<lparr>sql_now := 1700000600\<rparr>"

definition only_counters :: customer_update where
  "only_counters =
     \<lparr>cu_name = None, cu_email = None, cu_phone = None, cu_segment = None, cu_notes = None,
      cu_total_spent = Some 0, cu_order_count = Some 99\<rparr>"

section \<open>Customer creation (customers route, \<open>POST /api/customers\<close>)\<close>

record customer_body =
  cb_name :: "string option"
  cb_email :: "string option"
  cb_phone :: "string option"
  cb_segment :: "string option"
  cb_notes :: "string option"

text \<open>\<open>!value\<close> on a text field: absent, \<open>null\<close> and the empty string are falsy.\<close>

definition falsy :: "string option \<Rightarrow> bool" where
  "falsy v = (case v of None \<Rightarrow> True | Some s \<Rightarrow> s = [])"

text \<open>\<open>value || fallback\<close>\<close>

definition or_else :: "string option \<Rightarrow> string \<Rightarrow> string" where
  "or_else v fallback = (case v of None \<Rightarrow> fallback | Some s \<Rightarrow> if s = [] then fallback else s)"

definition unique_violation :: pg_error where
  "unique_violation =
     \<lparr>code = Some ''23505'', message = ''duplicate key value violates unique constraint''\<rparr>"

text \<open>
  Modelled from the spec: the schema of \<open>customers\<close> is not among the sources. The
  specification gives the table a unique email, and the handler expects the database to
  raise error code 23505 for a duplicate; so the insert fails with that code when a row
  with the same email is stored. The new row takes its id from a sequence and starts with
  both counters at 0. The table is the list of rows with the next id of the sequence.
\<close>

definition insert_customer ::
  "environment \<Rightarrow> string \<Rightarrow> string \<Rightarrow> string option \<Rightarrow> string \<Rightarrow> string option
     \<Rightarrow> customer_row list \<times> int \<Rightarrow> (customer_row list \<times> int) \<times> (pg_error + customer_row)" where
  "insert_customer env name email phone segment remarks tbl =
     (case faults env 0 of
        Some e \<Rightarrow> (tbl, Inl e)
      | None \<Rightarrow>
          if email \<in> set (map c_email (fst tbl)) then (tbl, Inl unique_violation)
          else
            (let row = \<lparr>c_id = snd tbl, c_name = name, c_email = email, c_phone = phone,
                         c_segment = segment, c_notes = remarks, c_total_spent = 0,
                         c_order_count = 0, c_created_at = sql_now env,
                         c_updated_at = sql_now env\<rparr>
             in ((fst tbl @ [row], snd tbl + 1), Inr row)))"

definition post_customer ::
  "environment \<Rightarrow> customer_body \<Rightarrow> customer_row list \<times> int
     \<Rightarrow> (customer_row list \<times> int) \<times> customer_row response" where
  "post_customer env b tbl =
     (if falsy (cb_name b) \<or> falsy (cb_email b)
      then (tbl, Failure 400 ''Name and email are required'')
      else
        (case insert_customer env (or_else (cb_name b) []) (or_else (cb_email b) [])
                (cb_phone b) (or_else (cb_segment b) ''new'') (cb_notes b) tbl of
           (tbl', Inr row) \<Rightarrow> (tbl', Success 201 row)
         | (tbl', Inl e) \<Rightarrow>
             if code e = Some ''23505''
             then (tbl', Failure 400 ''Customer with this email already exists'')
             else (tbl', Failure 500 (message e))))"

definition ada :: customer_body where
  "ada = \<lparr>cb_name = Some ''Ada'', cb_email = Some ''ada@example.com'', cb_phone = None,
          cb_segment = None, cb_notes = None\<rparr>"

definition ada_again :: customer_body where
  "ada_again = \<lparr>cb_name = Some ''Ada L.'', cb_email = Some ''ada@example.com'',
                cb_phone = Some ''555-0100'', cb_segment = Some ''vip'', cb_notes = None\<rparr>"

definition ada_row :: customer_row where
  "ada_row =
     \<lparr>c_id = 1, c_name = ''Ada'', c_email = ''ada@example.com'', c_phone = None,
      c_segment = ''new'', c_notes = None, c_total_spent = 0, c_order_count = 0,
      c_created_at = 1700000000, c_updated_at = 1700000000\<rparr>"

section \<open>List endpoints (\<open>GET /\<close> of the four routes)\<close>

text \<open>
  Every list handler assembles a \<open>WHERE\<close> clause from the filters of the query string,
  runs the page query with \<open>LIMIT\<close> and \<open>OFFSET\<close>, and then a \<open>COUNT(*)\<close> over the
  same \<open>FROM\<close> and \<open>WHERE\<close>. The model keeps what the SQL text says: the conditions with
  their placeholders \<open>$n\<close>, the list of bound values, and an evaluator for both. The two
  queries of a request read the same rows. What the database decides by itself is an
  argument: the \<open>ILIKE\<close> operator and the reading of a text as a \<open>bigint\<close>.
\<close>

datatype sql_value = SNull | SText string | SBool bool | SInteger int

record dbms =
  ilike :: "string \<Rightarrow> string \<Rightarrow> bool"
  bigint :: "string \<Rightarrow> int option"

text \<open>
  The two shapes of condition that the handlers push:
  \<open>(a ILIKE $n OR b ILIKE $n)\<close> and \<open>column = $n\<close>.
\<close>

datatype condition = ILikeEither string string nat | Equals string nat

fun placeholders :: "condition \<Rightarrow> nat list" where
  "placeholders (ILikeEither a b n) = [n, n]"
| "placeholders (Equals a n) = [n]"

text \<open>
  A \<open>SELECT\<close>: the conditions joined by \<open>AND\<close> (none: no \<open>WHERE\<close>), and the placeholders
  of \<open>LIMIT\<close> and \<open>OFFSET\<close> if it has them.
\<close>

record select =
  where_clause :: "condition list"
  limit_offset :: "(nat \<times> nat) option"

definition select_placeholders :: "select \<Rightarrow> nat list" where
  "select_placeholders q =
     concat (map placeholders (where_clause q)) @
     (case limit_offset q of None \<Rightarrow> [] | Some (l, off) \<Rightarrow> [l, off])"

text \<open>
  The statement and the bound values fit when the statement uses exactly the placeholders
  \<open>$1\<close> to \<open>$n\<close> for \<open>n\<close> values; otherwise the database refuses the query.
\<close>

definition binds :: "nat list \<Rightarrow> 'a list \<Rightarrow> bool" where
  "binds used params =
     (list_all (\<lambda>n. 1 \<le> n \<and> n \<le> length params) used \<and>
      list_all (\<lambda>n. n \<in> set used) [1..<Suc (length params)])"

definition param :: "sql_value list \<Rightarrow> nat \<Rightarrow> sql_value" where
  "param params n = params ! (n - 1)"

text \<open>SQL's three truth values: \<open>None\<close> is unknown.\<close>

definition sql_or :: "bool option \<Rightarrow> bool option \<Rightarrow> bool option" where
  "sql_or x y =
     (if x = Some True \<or> y = Some True then Some True
      else if x = Some False \<and> y = Some False then Some False
      else None)"

definition sql_and :: "bool option \<Rightarrow> bool option \<Rightarrow> bool option" where
  "sql_and x y =
     (if x = Some False \<or> y = Some False then Some False
      else if x = Some True \<and> y = Some True then Some True
      else None)"

definition sql_ilike :: "dbms \<Rightarrow> sql_value \<Rightarrow> sql_value \<Rightarrow> bool option" where
  "sql_ilike db v pattern =
     (case (v, pattern) of
        (SText s, SText p) \<Rightarrow> Some (ilike db s p)
      | _ \<Rightarrow> None)"

definition sql_equals :: "sql_value \<Rightarrow> sql_value \<Rightarrow> bool option" where
  "sql_equals a b = (if a = SNull \<or> b = SNull then None else Some (a = b))"

fun eval_condition ::
  "dbms \<Rightarrow> (string \<Rightarrow> sql_value) \<Rightarrow> sql_value list \<Rightarrow> condition \<Rightarrow> bool option" where
  "eval_condition db col params (ILikeEither a b n) =
     sql_or (sql_ilike db (col a) (param params n)) (sql_ilike db (col b) (param params n))"
| "eval_condition db col params (Equals a n) = sql_equals (col a) (param params n)"

fun eval_where ::
  "dbms \<Rightarrow> (string \<Rightarrow> sql_value) \<Rightarrow> sql_value list \<Rightarrow> condition list \<Rightarrow> bool option" where
  "eval_where db col params [] = Some True"
| "eval_where db col params (c # cs) =
     sql_and (eval_condition db col params c) (eval_where db col params cs)"

text \<open>
  What a query selects from: the rows of its \<open>FROM\<close> (with the join done), the value of a
  column in a row, and the \<open>ORDER BY\<close> of the page query. SQL leaves the order of rows with
  equal keys open; the orders below keep them as they are stored.
\<close>

record 'r relation =
  rel_rows :: "'r list"
  rel_column :: "'r \<Rightarrow> string \<Rightarrow> sql_value"
  rel_order :: "'r list \<Rightarrow> 'r list"

text \<open>The rows for which the \<open>WHERE\<close> clause is true.\<close>

definition matching ::
  "dbms \<Rightarrow> 'r relation \<Rightarrow> condition list \<Rightarrow> sql_value list \<Rightarrow> 'r list" where
  "matching db rel conditions params =
     filter (\<lambda>r. eval_where db (rel_column rel r) params conditions = Some True) (rel_rows rel)"

definition bind_mismatch :: pg_error where
  "bind_mismatch =
     \<lparr>code = Some ''08P01'',
      message = ''bind message supplies the wrong number of parameters''\<rparr>"

definition invalid_integer :: pg_error where
  "invalid_integer =
     \<lparr>code = Some ''22P02'', message = ''invalid input syntax for type bigint''\<rparr>"

definition negative_limit :: pg_error where
  "negative_limit = \<lparr>code = Some ''2201W'', message = ''LIMIT and OFFSET must not be negative''\<rparr>"

definition as_bigint :: "dbms \<Rightarrow> sql_value \<Rightarrow> int option" where
  "as_bigint db v =
     (case v of SInteger n \<Rightarrow> Some n | SText s \<Rightarrow> bigint db s | _ \<Rightarrow> None)"

text \<open>The page query.\<close>

definition select_rows ::
  "dbms \<Rightarrow> 'r relation \<Rightarrow> select \<Rightarrow> sql_value list \<Rightarrow> pg_error + 'r list" where
  "select_rows db rel q params =
     (if \<not> binds (select_placeholders q) params then Inl bind_mismatch
      else
        (let found = rel_order rel (matching db rel (where_clause q) params)
         in case limit_offset q of
              None \<Rightarrow> Inr found
            | Some (l, off) \<Rightarrow>
                (case (as_bigint db (param params l), as_bigint db (param params off)) of
                   (Some n, Some m) \<Rightarrow>
                     if n < 0 \<or> m < 0 then Inl negative_limit
                     else Inr (take (nat n) (drop (nat m) found))
                 | _ \<Rightarrow> Inl invalid_integer)))"

text \<open>The count query: \<open>SELECT COUNT(*)\<close> over the same \<open>FROM\<close>, with the conditions given.\<close>

definition select_count ::
  "dbms \<Rightarrow> 'r relation \<Rightarrow> condition list \<Rightarrow> sql_value list \<Rightarrow> pg_error + nat" where
  "select_count db rel conditions params =
     (if \<not> binds (concat (map placeholders conditions)) params then Inl bind_mismatch
      else Inr (length (matching db rel conditions params)))"

text \<open>\<open>pool.query\<close>, as the \<open>k\<close>-th statement of the request.\<close>

definition pool_query :: "environment \<Rightarrow> nat \<Rightarrow> pg_error + 'a \<Rightarrow> pg_error + 'a" where
  "pool_query env k result = (case faults env k of Some e \<Rightarrow> Inl e | None \<Rightarrow> result)"

subsection \<open>Numbers as text\<close>

text \<open>
  The driver returns \<open>COUNT(*)\<close> as decimal text, which the handler reads with
  \<open>parseInt\<close>, as it does the \<open>limit\<close> and \<open>offset\<close> of the query string. \<open>parseInt\<close> skips
  leading white space, takes a sign, switches to radix 16 after \<open>0x\<close>, and reads the longest
  prefix of digits; no digit gives \<open>NaN\<close>, here \<open>None\<close>. Results are exact integers.
\<close>

definition decimal_digit :: "nat \<Rightarrow> char" where
  "decimal_digit d = ''0123456789'' ! d"

function decimal :: "nat \<Rightarrow> string" where
  "decimal n = (if n < 10 then [decimal_digit n] else decimal (n div 10) @ [decimal_digit (n mod 10)])"
  by pat_completeness auto
termination
  by (relation "measure (\<lambda>n. n)") auto

declare decimal.simps [simp del]

definition hex_value :: "char \<Rightarrow> nat option" where
  "hex_value c =
     map_of (zip ''0123456789abcdef'' [0, 1, 2, 3, 4, 5, 6, 7, 8, 9, 10, 11, 12, 13, 14, 15] @
             zip ''ABCDEF'' [10, 11, 12, 13, 14, 15]) c"

definition digit_value :: "nat \<Rightarrow> char \<Rightarrow> nat option" where
  "digit_value radix c =
     (case hex_value c of
        None \<Rightarrow> None
      | Some d \<Rightarrow> if d < radix then Some d else None)"

definition js_whitespace :: "char \<Rightarrow> bool" where
  "js_whitespace c = (c \<in> set [CHR '' '', CHR 0x09, CHR 0x0A, CHR 0x0B, CHR 0x0C, CHR 0x0D])"

definition digits_value :: "nat \<Rightarrow> string \<Rightarrow> nat" where
  "digits_value radix z =
     foldl (\<lambda>acc c. acc * radix + (case digit_value radix c of Some d \<Rightarrow> d | None \<Rightarrow> 0)) 0 z"

definition parseInt :: "string \<Rightarrow> int option" where
  "parseInt s =
     (let s1 = dropWhile js_whitespace s;
          negative = (take 1 s1 = ''-'');
          s2 = (if take 1 s1 = ''-'' \<or> take 1 s1 = ''+'' then drop 1 s1 else s1);
          hex = (take 2 s2 = ''0x'' \<or> take 2 s2 = ''0X'');
          radix = (if hex then 16 else 10);
          s3 = (if hex then drop 2 s2 else s2);
          z = takeWhile (\<lambda>c. digit_value radix c \<noteq> None) s3
      in if z = [] then None
         else Some (if negative then - int (digits_value radix z) else int (digits_value radix z)))"

subsection \<open>The shared course of a list handler\<close>

text \<open>The envelope \<open>{success: true, data, total, limit, offset}\<close>.\<close>

record 'r page =
  e_data :: "'r list"
  e_total :: "int option"
  e_limit :: "int option"
  e_offset :: "int option"

text \<open>
  \<open>const { limit = 50, offset = 0 } = req.query\<close>: the default is a number, a given value
  is the text of the query string. The value is bound as it is; the envelope shows
  \<open>parseInt\<close> of it.
\<close>

definition or_default :: "string option \<Rightarrow> nat \<Rightarrow> sql_value" where
  "or_default given fallback = (case given of None \<Rightarrow> SInteger (int fallback) | Some s \<Rightarrow> SText s)"

definition parseInt_of :: "string option \<Rightarrow> nat \<Rightarrow> int option" where
  "parseInt_of given fallback =
     (case given of None \<Rightarrow> parseInt (decimal fallback) | Some s \<Rightarrow> parseInt s)"

text \<open>\<open>params.slice(0, -2)\<close>\<close>

definition slice_off_two :: "'a list \<Rightarrow> 'a list" where
  "slice_off_two params = take (length params - 2) params"

text \<open>
  From \<open>pool.query(query, params)\<close> to the envelope: the page query, then the count query
  with its own values, then the response; an error of either query is answered with 500.
\<close>

definition respond_page ::
  "dbms \<Rightarrow> environment \<Rightarrow> 'r relation \<Rightarrow> select \<Rightarrow> sql_value list \<Rightarrow> condition list
     \<Rightarrow> sql_value list \<Rightarrow> int option \<Rightarrow> int option \<Rightarrow> 'r page response" where
  "respond_page db env rel query params count_conditions count_params shown_limit shown_offset =
     (case pool_query env 0 (select_rows db rel query params) of
        Inl e \<Rightarrow> Failure 500 (message e)
      | Inr rows \<Rightarrow>
          (case pool_query env 1 (select_count db rel count_conditions count_params) of
             Inl e \<Rightarrow> Failure 500 (message e)
           | Inr n \<Rightarrow>
               Success 200
                 \<lparr>e_data = rows, e_total = parseInt (decimal n), e_limit = shown_limit,
                  e_offset = shown_offset\<rparr>))"

text \<open>
  Orders, products and customers: the conditions and values collected so far, then
  \<open>LIMIT\<close> and \<open>OFFSET\<close> with the next two placeholders, and the count query with the
  same conditions and the values without the last two.
\<close>

definition paginate ::
  "dbms \<Rightarrow> environment \<Rightarrow> 'r relation \<Rightarrow> condition list \<times> sql_value list
     \<Rightarrow> string option \<Rightarrow> string option \<Rightarrow> 'r page response" where
  "paginate db env rel filters limit offset =
     (case filters of
        (conditions, collected) \<Rightarrow>
          (let query = \<lparr>where_clause = conditions,
                        limit_offset = Some (length collected + 1, length collected + 2)\<rparr>;
               params = collected @ [or_default limit 50, or_default offset 0]
           in respond_page db env rel query params conditions (slice_off_two params)
                (parseInt_of limit 50) (parseInt_of offset 0)))"

subsection \<open>Collecting the filters\<close>

text \<open>
  \<^verbatim>\<open>
  if (search) {
    conditions.push(`(a ILIKE $${params.length + 1} OR b ILIKE $${params.length + 1})`);
    params.push(`%${search}%`);
  }
  \<close>
\<close>

definition push_search ::
  "string \<Rightarrow> string \<Rightarrow> string option \<Rightarrow> condition list \<times> sql_value list
     \<Rightarrow> condition list \<times> sql_value list" where
  "push_search a b search filters =
     (case filters of
        (conditions, params) \<Rightarrow>
          if falsy search then (conditions, params)
          else (conditions @ [ILikeEither a b (length params + 1)],
                params @ [SText (''%'' @ or_else search [] @ ''%'')]))"

text \<open>
  \<^verbatim>\<open>
  if (status) {
    conditions.push(`o.status = $${params.length + 1}`);
    params.push(status);
  }
  \<close>
\<close>

definition push_equals ::
  "string \<Rightarrow> string option \<Rightarrow> condition list \<times> sql_value list
     \<Rightarrow> condition list \<times> sql_value list" where
  "push_equals a given filters =
     (case filters of
        (conditions, params) \<Rightarrow>
          if falsy given then (conditions, params)
          else (conditions @ [Equals a (length params + 1)],
                params @ [SText (or_else given [])]))"

text \<open>
  \<^verbatim>\<open>
  if (active !== undefined) {
    conditions.push(`active = $${params.length + 1}`);
    params.push(active === 'true');
  }
  \<close>
\<close>

definition push_active ::
  "string option \<Rightarrow> condition list \<times> sql_value list \<Rightarrow> condition list \<times> sql_value list" where
  "push_active active filters =
     (case filters of
        (conditions, params) \<Rightarrow>
          (case active of
             None \<Rightarrow> (conditions, params)
           | Some a \<Rightarrow>
               (conditions @ [Equals ''active'' (length params + 1)],
                params @ [SBool (a = ''true'')])))"

text \<open>\<open>ORDER BY created_at DESC\<close>\<close>

definition newest_first :: "('r \<Rightarrow> nat) \<Rightarrow> 'r list \<Rightarrow> 'r list" where
  "newest_first created rows = sort_key (\<lambda>r. - int (created r)) rows"

subsection \<open>Orders\<close>

record orders_query =
  oq_limit :: "string option"
  oq_offset :: "string option"
  oq_status :: "string option"
  oq_payment_status :: "string option"
  oq_search :: "string option"

text \<open>\<open>FROM orders o LEFT JOIN customers c ON o.customer_id = c.id\<close>\<close>

definition left_join ::
  "order_row list \<Rightarrow> customer_row list \<Rightarrow> (order_row \<times> customer_row option) list" where
  "left_join os cs =
     concat (map (\<lambda>ord. case filter (\<lambda>c. o_customer_id ord = Some (c_id c)) cs of
                          [] \<Rightarrow> [(ord, None)]
                        | c # others \<Rightarrow> map (\<lambda>c. (ord, Some c)) (c # others)) os)"

definition order_column :: "order_row \<times> customer_row option \<Rightarrow> string \<Rightarrow> sql_value" where
  "order_column r a =
     (if a = ''o.order_number'' then SText (o_order_number (fst r))
      else if a = ''o.status'' then SText (o_status (fst r))
      else if a = ''o.payment_status'' then SText (o_payment_status (fst r))
      else if a = ''c.name'' then (case snd r of None \<Rightarrow> SNull | Some c \<Rightarrow> SText (c_name c))
      else SNull)"

definition orders_relation ::
  "order_row list \<Rightarrow> customer_row list \<Rightarrow> (order_row \<times> customer_row option) relation" where
  "orders_relation os cs =
     \<lparr>rel_rows = left_join os cs, rel_column = order_column,
      rel_order = newest_first (\<lambda>r. o_created_at (fst r))\<rparr>"

definition orders_filters :: "orders_query \<Rightarrow> condition list \<times> sql_value list" where
  "orders_filters q =
     push_equals ''o.payment_status'' (oq_payment_status q)
       (push_equals ''o.status'' (oq_status q)
          (push_search ''o.order_number'' ''c.name'' (oq_search q) ([], [])))"

definition get_orders ::
  "dbms \<Rightarrow> environment \<Rightarrow> orders_query \<Rightarrow> order_row list \<Rightarrow> customer_row list
     \<Rightarrow> (order_row \<times> customer_row option) page response" where
  "get_orders db env q os cs =
     paginate db env (orders_relation os cs) (orders_filters q) (oq_limit q) (oq_offset q)"

subsection \<open>Products\<close>

record products_query =
  pq_limit :: "string option"
  pq_offset :: "string option"
  pq_category :: "string option"
  pq_active :: "string option"
  pq_search :: "string option"

definition nullable_text :: "string option \<Rightarrow> sql_value" where
  "nullable_text v = (case v of None \<Rightarrow> SNull | Some s \<Rightarrow> SText s)"

definition product_column :: "product_row \<Rightarrow> string \<Rightarrow> sql_value" where
  "product_column r a =
     (if a = ''name'' then SText (p_name r)
      else if a = ''description'' then nullable_text (p_description r)
      else if a = ''category'' then nullable_text (p_category r)
      else if a = ''active'' then SBool (p_active r)
      else SNull)"

definition products_relation :: "product_row list \<Rightarrow> product_row relation" where
  "products_relation ps =
     \<lparr>rel_rows = ps, rel_column = product_column, rel_order = newest_first p_created_at\<rparr>"

definition products_filters :: "products_query \<Rightarrow> condition list \<times> sql_value list" where
  "products_filters q =
     push_active (pq_active q)
       (push_equals ''category'' (pq_category q)
          (push_search ''name'' ''description'' (pq_search q) ([], [])))"

definition get_products ::
  "dbms \<Rightarrow> environment \<Rightarrow> products_query \<Rightarrow> product_row list \<Rightarrow> product_row page response" where
  "get_products db env q ps =
     paginate db env (products_relation ps) (products_filters q) (pq_limit q) (pq_offset q)"

subsection \<open>Customers\<close>

record customers_query =
  cq_limit :: "string option"
  cq_offset :: "string option"
  cq_search :: "string option"
  cq_segment :: "string option"

definition customer_column :: "customer_row \<Rightarrow> string \<Rightarrow> sql_value" where
  "customer_column r a =
     (if a = ''name'' then SText (c_name r)
      else if a = ''email'' then SText (c_email r)
      else if a = ''segment'' then SText (c_segment r)
      else SNull)"

definition customers_relation :: "customer_row list \<Rightarrow> customer_row relation" where
  "customers_relation cs =
     \<lparr>rel_rows = cs, rel_column = customer_column, rel_order = newest_first c_created_at\<rparr>"

definition customers_filters :: "customers_query \<Rightarrow> condition list \<times> sql_value list" where
  "customers_filters q =
     push_equals ''segment'' (cq_segment q)
       (push_search ''name'' ''email'' (cq_search q) ([], []))"

definition get_customers ::
  "dbms \<Rightarrow> environment \<Rightarrow> customers_query \<Rightarrow> customer_row list \<Rightarrow> customer_row page response" where
  "get_customers db env q cs =
     paginate db env (customers_relation cs) (customers_filters q) (cq_limit q) (cq_offset q)"

subsection \<open>Competitors\<close>

text \<open>
  This handler writes \<open>WHERE threat_level = $1\<close> into both query texts itself and gives
  the count query the values \<open>threat_level ? [threat_level] : []\<close>; its default limit is
  20, and it orders by \<open>distance ASC NULLS LAST\<close>.
\<close>

record competitors_query =
  kq_limit :: "string option"
  kq_offset :: "string option"
  kq_threat_level :: "string option"

definition competitor_column :: "competitor_row \<Rightarrow> string \<Rightarrow> sql_value" where
  "competitor_column r a = (if a = ''threat_level'' then SText (k_threat_level r) else SNull)"

definition nearest_first :: "competitor_row list \<Rightarrow> competitor_row list" where
  "nearest_first rows =
     sort_key (\<lambda>r. case k_distance r of Some d \<Rightarrow> d | None \<Rightarrow> 0)
       (filter (\<lambda>r. k_distance r \<noteq> None) rows) @
     filter (\<lambda>r. k_distance r = None) rows"

definition competitors_relation :: "competitor_row list \<Rightarrow> competitor_row relation" where
  "competitors_relation ks =
     \<lparr>rel_rows = ks, rel_column = competitor_column, rel_order = nearest_first\<rparr>"

definition threat_condition :: "competitors_query \<Rightarrow> condition list" where
  "threat_condition q = (if falsy (kq_threat_level q) then [] else [Equals ''threat_level'' 1])"

definition threat_value :: "competitors_query \<Rightarrow> sql_value list" where
  "threat_value q =
     (if falsy (kq_threat_level q) then [] else [SText (or_else (kq_threat_level q) [])])"

definition get_competitors ::
  "dbms \<Rightarrow> environment \<Rightarrow> competitors_query \<Rightarrow> competitor_row list
     \<Rightarrow> competitor_row page response" where
  "get_competitors db env q ks =
     (let collected = threat_value q;
          query = \<lparr>where_clause = threat_condition q,
                   limit_offset = Some (length collected + 1, length collected + 2)\<rparr>;
          params = collected @ [or_default (kq_limit q) 20, or_default (kq_offset q) 0]
      in respond_page db env (competitors_relation ks) query params
           (threat_condition q) (threat_value q)
           (parseInt_of (kq_limit q) 20) (parseInt_of (kq_offset q) 0))"

text \<open>
  The filters are numbered well when the conditions use exactly the placeholders \<open>$1\<close> to
  \<open>$n\<close> of the \<open>n\<close> values collected with them.
\<close>

definition numbered :: "condition list \<times> sql_value list \<Rightarrow> bool" where
  "numbered filters =
     (set (concat (map placeholders (fst filters))) = {1..length (snd filters)})"

subsection \<open>A database and a request for the examples\<close>

text \<open>
  An instance of the database's part: \<open>LIKE\<close> with the wildcards \<open>%\<close> and \<open>_\<close> on
  lower-cased text, and decimal text with an optional minus sign as \<open>bigint\<close>.
\<close>

fun like :: "string \<Rightarrow> string \<Rightarrow> bool" where
  "like [] [] = True"
| "like (c # s) [] = False"
| "like [] (p # ps) = (p = CHR ''%'' \<and> like [] ps)"
| "like (c # s) (p # ps) =
     (if p = CHR ''%'' then like (c # s) ps \<or> like s (p # ps)
      else (p = CHR ''_'' \<or> p = c) \<and> like s ps)"

definition lowerChar :: "char \<Rightarrow> char" where
  "lowerChar c =
     (case map_of (zip ''ABCDEFGHIJKLMNOPQRSTUVWXYZ'' ''abcdefghijklmnopqrstuvwxyz'') c of
        Some l \<Rightarrow> l
      | None \<Rightarrow> c)"

definition decimal_text :: "string \<Rightarrow> int option" where
  "decimal_text s =
     (let digits = (if take 1 s = ''-'' then drop 1 s else s)
      in if digits = [] \<or> \<not> list_all (\<lambda>c. digit_value 10 c \<noteq> None) digits then None
         else Some (if take 1 s = ''-'' then - int (digits_value 10 digits)
                    else int (digits_value 10 digits)))"

definition example_dbms :: dbms where
  "example_dbms =
     \<lparr>ilike = (\<lambda>s p. like (map lowerChar s) (map lowerChar p)), bigint = decimal_text\<rparr>"

definition example_products :: "product_row list" where
  "example_products =
     [\<lparr>p_id = 1, p_name = ''Espresso'', p_description = Some ''Short and strong'',
       p_price = 3, p_category = Some ''coffee'', p_inventory_count = 10, p_sku = None,
       p_active = True, p_image_url = None, p_created_at = 10, p_updated_at = 10\<rparr>,
      \<lparr>p_id = 2, p_name = ''Bagel'', p_description = None,
       p_price = 2, p_category = Some ''bakery'', p_inventory_count = 4, p_sku = None,
       p_active = True, p_image_url = None, p_created_at = 20, p_updated_at = 20\<rparr>,
      \<lparr>p_id = 3, p_name = ''Latte'', p_description = Some ''Espresso with milk'',
       p_price = 4, p_category = Some ''coffee'', p_inventory_count = 0, p_sku = None,
       p_active = True, p_image_url = None, p_created_at = 30, p_updated_at = 30\<rparr>,
      \<lparr>p_id = 4, p_name = ''Espresso cup'', p_description = Some ''Porcelain'',
       p_price = 9, p_category = Some ''wares'', p_inventory_count = 2, p_sku = None,
       p_active = False, p_image_url = None, p_created_at = 40, p_updated_at = 40\<rparr>]"

text \<open>\<open>GET /api/products?search=espresso&active=true&limit=1&offset=5\<close>\<close>

definition example_query :: products_query where
  "example_query =
     \<lparr>pq_limit = Some ''1'', pq_offset = Some ''5'', pq_category = None,
      pq_active = Some ''true'', pq_search = Some ''espresso''\<rparr>"

section \<open>Properties of the order number\<close>

lemma substring_fraction:
  "substring 2 6 (fractionToString36 ds) = map digit36 (take 4 ds)"
  by (simp add: substring_def fractionToString36_def take_map)

lemma generateOrderNumber_format:
  "generateOrderNumber now ds =
     ''ORD-'' @ toUpperCase (toString36 now) @ ''-'' @ toUpperCase (map digit36 (take 4 ds))"
  by (simp add: generateOrderNumber_def substring_fraction)

lemma random_suffix_length:
  "length (toUpperCase (map digit36 (take 4 ds))) = min 4 (length ds)"
  by (simp add: toUpperCase_def min_def)

text \<open>
  C8: an order number is the prefix, the base-36 timestamp and a random suffix of four base-36
  characters, in upper case, with hyphens between the parts. The code cuts the suffix out
  of the base-36 text of \<open>Math.random()\<close> with \<open>substring(2, 6)\<close>, so the suffix has
  four characters only when that text has four digits or more (\<open>random_suffix_length\<close>).
  At \<open>Date.now() = 1700000000000\<close> and \<open>Math.random() = 0.5\<close>, whose text is \<open>0.i\<close>,
  the order number ends in the single character \<open>I\<close>.
\<close>

theorem generateOrderNumber_short_suffix:
  "generateOrderNumber 1700000000000 [18] = ''ORD-LOYW3V28-I'' \<and>
   length (suffixOf (generateOrderNumber 1700000000000 [18])) = 1"
  by (simp add: generateOrderNumber_def toString36.simps toUpperCase_def substring_def
      fractionToString36_def digit36_def upperChar_def suffixOf_def)

section \<open>Evaluating numbers\<close>

lemma numeral_number: "(numeral k :: number) = Finite (numeral k)"
proof (induction k)
  case One
  show ?case by (simp add: one_number_def)
next
  case (Bit0 k)
  have "(numeral (num.Bit0 k) :: number) = numeral k + numeral k" by (rule numeral_Bit0)
  also have "\<dots> = Finite (numeral k) + Finite (numeral k)" by (simp only: Bit0.IH)
  also have "\<dots> = Finite (numeral (num.Bit0 k))" by (simp add: numeral_Bit0)
  finally show ?case .
next
  case (Bit1 k)
  have "(numeral (num.Bit1 k) :: number) = numeral k + numeral k + 1" by (rule numeral_Bit1)
  also have "\<dots> = Finite (numeral k) + Finite (numeral k) + Finite 1"
    by (simp only: Bit1.IH one_number_def)
  also have "\<dots> = Finite (numeral (num.Bit1 k))" by (simp add: numeral_Bit1)
  finally show ?case .
qed

lemma floor_quotient: "\<lfloor>(numeral a :: rat) / numeral b\<rfloor> = numeral a div numeral b"
  by (metis floor_divide_of_int_eq of_int_numeral)

lemmas number_defs = js_plus_def js_times_def js_literal_def to_double_def round_double_def
  round_magnitude_def nearest_even_def pow2_def binary_exponent_def halvings.simps
  doublings.simps floor_quotient numeral_number zero_number_def one_number_def

section \<open>The error of rounding\<close>




















section \<open>Properties of order creation\<close>

lemma client_query_Inl:
  assumes "client_query plan now st s = (s', Inl e)"
  shows "plan (issued s) = Some e" "committed s' = committed s" "order_seq s' = order_seq s"
    "issued s' = Suc (issued s)" "trace s' = trace s @ [Query st False]"
    "txn s' = (if st = Commit then None else txn s)"
  using assms by (auto simp: client_query_def Let_def split: option.splits prod.splits)

lemma client_query_Inr:
  assumes "client_query plan now st s = (s', Inr rows)"
  shows "plan (issued s) = None" "issued s' = Suc (issued s)" "trace s' = trace s @ [Query st True]"
  using assms by (auto simp: client_query_def Let_def split: option.splits prod.splits; cases st; auto simp: store_def Let_def split: option.splits)+

lemma client_query_failed_at_end:
  assumes "client_query plan now st s = (s', Inl e)" "list_all quiet (trace s)" "st \<noteq> Rollback"
  shows "failed_at_end (trace s')"
  using assms by (simp add: client_query_Inl(5) failed_at_end_def)

lemma client_query_quiet:
  assumes "client_query plan now st s = (s', Inr rows)" "list_all quiet (trace s)" "st \<noteq> Rollback"
  shows "list_all quiet (trace s')"
  using assms by (simp add: client_query_Inr(3))

lemma insert_item_effect:
  assumes "client_query plan now (InsertOrderItem oid pid pname qty price tot) s = (s', Inr rows)"
    and "txn s = Some w"
  shows "committed s' = committed s" "order_seq s' = order_seq s"
    "txn s' = Some (w\<lparr>order_items := order_items w @
        [\<lparr>i_order_id = oid, i_product_id = pid, i_product_name = pname, i_quantity = qty,
          i_unit_price = price, i_total_price = tot, i_created_at = now\<rparr>]\<rparr>)"
  using assms by (auto simp: client_query_def Let_def store_def current_def split: option.splits)

lemma insert_order_effect:
  assumes "client_query plan now (InsertOrder cid num sub tx tot nts addr pay) s = (s', Inr rows)"
    and "txn s = Some w"
  shows "committed s' = committed s" "order_seq s' = order_seq s + 1"
    "rows = [\<lparr>o_id = order_seq s, o_customer_id = cid, o_order_number = num,
                  o_subtotal = sub, o_tax = tx, o_total = tot, o_notes = nts,
                  o_shipping_address = addr, o_payment_method = pay,
                  o_status = ''pending'', o_payment_status = ''unpaid'',
                  o_created_at = now, o_updated_at = now\<rparr>]"
    "txn s' = Some (w\<lparr>orders := orders w @ rows\<rparr>)"
  using assms by (auto simp: client_query_def Let_def store_def current_def split: option.splits)

lemma update_stats_effect:
  assumes "client_query plan now (UpdateCustomerStats amount cid) s = (s', Inr rows)"
    and "txn s = Some w"
  shows "committed s' = committed s" "order_seq s' = order_seq s"
    "txn s' = Some (w\<lparr>customers := map (bump_customer amount now cid) (customers w)\<rparr>)"
  using assms by (auto simp: client_query_def Let_def store_def current_def split: option.splits)

lemma commit_effect:
  assumes "client_query plan now Commit s = (s', Inr rows)" and "txn s = Some w"
  shows "committed s' = w" "txn s' = None" "order_seq s' = order_seq s"
  using assms by (auto simp: client_query_def Let_def split: option.splits)

lemma begin_effect:
  assumes "client_query plan now Begin s = (s', Inr rows)" and "txn s = None"
  shows "committed s' = committed s" "txn s' = Some (committed s)" "order_seq s' = order_seq s"
  using assms by (auto simp: client_query_def Let_def split: option.splits)

lemma rollback_effect:
  assumes "client_query plan now Rollback s = (s', Inr rows)"
  shows "committed s' = committed s" "txn s' = None"
  using assms by (auto simp: client_query_def Let_def split: option.splits)

lemma insert_items_Inr:
  assumes "insert_items env oid its s = (s', Inr u)" "txn s = Some w" "list_all quiet (trace s)"
  shows "committed s' = committed s \<and> order_seq s' = order_seq s \<and> list_all quiet (trace s') \<and>
     txn s' = Some (w\<lparr>order_items := order_items w @ map (item_row (sql_now env) oid) its\<rparr>)"
  using assms
proof (induction its arbitrary: s w)
  case Nil
  then show ?case by simp
next
  case (Cons item rest)
  let ?st = "InsertOrderItem oid (product_id item) (product_name item) (quantity item)
                (unit_price item) (js_times (quantity item) (unit_price item))"
  from Cons.prems(1) obtain s1 rows where
    q: "client_query (faults env) (sql_now env) ?st s = (s1, Inr rows)"
    and r: "insert_items env oid rest s1 = (s', Inr u)"
    by (auto split: prod.splits sum.splits)
  note e = insert_item_effect[OF q Cons.prems(2)]
  have t: "list_all quiet (trace s1)" using client_query_quiet[OF q Cons.prems(3)] by simp
  from Cons.IH[OF r e(3) t] e show ?case by (simp add: item_row_def)
qed

lemma insert_items_Inl:
  assumes "insert_items env oid its s = (s', Inl e)" "txn s = Some w" "list_all quiet (trace s)"
  shows "committed s' = committed s \<and> failed_at_end (trace s') \<and> txn s' \<noteq> None \<and>
     (\<exists>n. faults env n = Some e)"
  using assms
proof (induction its arbitrary: s w)
  case Nil
  then show ?case by simp
next
  case (Cons item rest)
  let ?st = "InsertOrderItem oid (product_id item) (product_name item) (quantity item)
                (unit_price item) (js_times (quantity item) (unit_price item))"
  obtain s1 r1 where q: "client_query (faults env) (sql_now env) ?st s = (s1, r1)"
    by (cases "client_query (faults env) (sql_now env) ?st s")
  show ?case
  proof (cases r1)
    case (Inl e1)
    with q Cons.prems(1) have "s' = s1" "e1 = e" by simp_all
    with q Inl Cons.prems(2,3) show ?thesis
      using client_query_Inl[of "faults env" "sql_now env" ?st s s1 e1]
        client_query_failed_at_end[of "faults env" "sql_now env" ?st s s1 e1] by auto
  next
    case (Inr rows)
    with q Cons.prems(1) have r: "insert_items env oid rest s1 = (s', Inl e)" by simp
    note ef = insert_item_effect[OF q[unfolded Inr] Cons.prems(2)]
    have t: "list_all quiet (trace s1)" using client_query_quiet[OF q[unfolded Inr] Cons.prems(3)] by simp
    from Cons.IH[OF r ef(3) t] ef show ?thesis by simp
  qed
qed


lemma update_customer_stats_Inr:
  assumes "update_customer_stats env amount cid s = (s', Inr u)" "txn s = Some w"
    "list_all quiet (trace s)"
  shows "committed s' = committed s \<and> order_seq s' = order_seq s \<and> list_all quiet (trace s') \<and>
     txn s' = Some (if truthy_id cid
                    then w\<lparr>customers := map (bump_customer amount (sql_now env) (the cid)) (customers w)\<rparr>
                    else w)"
proof (cases "truthy_id cid")
  case False
  with assms show ?thesis
    by (auto simp: update_customer_stats_def truthy_id_def split: option.splits)
next
  case True
  then obtain n where n: "cid = Some n" "n \<noteq> 0"
    by (auto simp: truthy_id_def split: option.splits)
  with assms(1) obtain rows where
    q: "client_query (faults env) (sql_now env) (UpdateCustomerStats amount n) s = (s', Inr rows)"
    by (auto simp: update_customer_stats_def split: prod.splits sum.splits)
  from update_stats_effect[OF q assms(2)] client_query_quiet[OF q assms(3)] True n
  show ?thesis by simp
qed

lemma update_customer_stats_Inl:
  assumes "update_customer_stats env amount cid s = (s', Inl e)" "txn s = Some w"
    "list_all quiet (trace s)"
  shows "committed s' = committed s \<and> failed_at_end (trace s') \<and> (\<exists>n. faults env n = Some e)"
proof -
  from assms(1) obtain n where
    q: "client_query (faults env) (sql_now env) (UpdateCustomerStats amount n) s = (s', Inl e)"
    by (auto simp: update_customer_stats_def split: option.splits if_splits prod.splits sum.splits)
  from client_query_Inl(1,2)[OF q] client_query_failed_at_end[OF q assms(3)]
  show ?thesis by auto
qed


lemma place_order_unfold:
  "place_order env body its s1 =
     (case client_query (faults env) (sql_now env) (order_statement env body its) s1 of
           (s2, Inl e) \<Rightarrow> (s2, Inl e)
         | (s2, Inr []) \<Rightarrow> (s2, Inl type_error)
         | (s2, Inr (order # _)) \<Rightarrow>
             (case insert_items env (o_id order) its s2 of
                (s3, Inl e) \<Rightarrow> (s3, Inl e)
              | (s3, Inr _) \<Rightarrow>
                  (case update_customer_stats env (js_plus (calculate_subtotal its) (calculate_tax (calculate_subtotal its))) (customer_id body) s3 of
                     (s4, Inl e) \<Rightarrow> (s4, Inl e)
                   | (s4, Inr _) \<Rightarrow>
                       (case client_query (faults env) (sql_now env) Commit s4 of
                          (s5, Inl e) \<Rightarrow> (s5, Inl e)
                        | (s5, Inr _) \<Rightarrow> (respond 201 s5, Inr (Success 201 order))))))"
  by (simp add: place_order_def order_statement_def Let_def)

lemma place_order_Inr:
  assumes run: "place_order env body its s1 = (s', Inr r)" and w: "txn s1 = Some w"
    and t: "list_all quiet (trace s1)"
  shows "r = Success 201 (new_order env body its (order_seq s1))"
    and "orders (committed s') = orders w @ [new_order env body its (order_seq s1)]"
    and "order_items (committed s') =
           order_items w @ map (item_row (sql_now env) (order_seq s1)) its"
    and "customers (committed s') =
           (if truthy_id (customer_id body)
            then map (bump_customer (o_total (new_order env body its (order_seq s1))) (sql_now env)
                        (the (customer_id body))) (customers w)
            else customers w)"
    and "txn s' = None"
    and "\<exists>tr. trace s' = tr @ [Respond 201] \<and> list_all quiet tr"
proof -
  let ?ins = "order_statement env body its"
  let ?tot = "js_plus (calculate_subtotal its) (calculate_tax (calculate_subtotal its))"
  from run obtain s2 order rest where
    q2: "client_query (faults env) (sql_now env) ?ins s1 = (s2, Inr (order # rest))"
    by (auto simp: place_order_unfold split: prod.splits sum.splits list.splits)
  note e2 = insert_order_effect[OF q2[unfolded order_statement_def] w]
  have order: "order = new_order env body its (order_seq s1)" and rest: "rest = []"
    using e2(3) by (simp_all add: new_order_def)
  have t2: "list_all quiet (trace s2)"
    using client_query_quiet[OF q2 t] by (simp add: order_statement_def)
  from run q2 obtain s3 u3 where
    q3: "insert_items env (o_id order) its s2 = (s3, Inr u3)"
    by (auto simp: place_order_unfold split: prod.splits sum.splits)
  note e3 = insert_items_Inr[OF q3 e2(4) t2]
  from run q2 q3 obtain s4 u4 where
    q4: "update_customer_stats env ?tot (customer_id body) s3 = (s4, Inr u4)"
    by (auto simp: place_order_unfold split: prod.splits sum.splits)
  from e3 have w3: "txn s3 = Some (w\<lparr>orders := orders w @ order # rest,
       order_items := order_items (w\<lparr>orders := orders w @ order # rest\<rparr>) @ map (item_row (sql_now env) (o_id order)) its\<rparr>)"
    and t3: "list_all quiet (trace s3)" by simp_all
  note e4 = update_customer_stats_Inr[OF q4 w3 t3]
  from run q2 q3 q4 obtain s5 rows5 where
    q5: "client_query (faults env) (sql_now env) Commit s4 = (s5, Inr rows5)"
    and fin: "s' = respond 201 s5" "r = Success 201 order"
    by (auto simp: place_order_unfold split: prod.splits sum.splits)
  from e4 obtain w4 where w4: "txn s4 = Some w4"
    and w4_def: "w4 = (if truthy_id (customer_id body)
                    then (w\<lparr>orders := orders w @ order # rest,
       order_items := order_items (w\<lparr>orders := orders w @ order # rest\<rparr>) @ map (item_row (sql_now env) (o_id order)) its\<rparr>)\<lparr>customers := map (bump_customer ?tot (sql_now env) (the (customer_id body))) (customers (w\<lparr>orders := orders w @ order # rest,
       order_items := order_items (w\<lparr>orders := orders w @ order # rest\<rparr>) @ map (item_row (sql_now env) (o_id order)) its\<rparr>))\<rparr>
                    else (w\<lparr>orders := orders w @ order # rest,
       order_items := order_items (w\<lparr>orders := orders w @ order # rest\<rparr>) @ map (item_row (sql_now env) (o_id order)) its\<rparr>))"
    by simp
  note e5 = commit_effect[OF q5 w4]
  have t5: "list_all quiet (trace s5)" using client_query_quiet[OF q5] e4 by simp
  show "r = Success 201 (new_order env body its (order_seq s1))" using fin order by simp
  show "orders (committed s') = orders w @ [new_order env body its (order_seq s1)]"
    using fin e5 w4_def order rest by (simp add: respond_def)
  show "order_items (committed s') = order_items w @ map (item_row (sql_now env) (order_seq s1)) its"
    using fin e5 w4_def order rest by (simp add: respond_def new_order_def)
  show "customers (committed s') =
           (if truthy_id (customer_id body)
            then map (bump_customer (o_total (new_order env body its (order_seq s1))) (sql_now env)
                        (the (customer_id body))) (customers w)
            else customers w)"
    using fin e5 w4_def order rest by (simp add: respond_def new_order_def)
  show "txn s' = None" using fin e5 by (simp add: respond_def)
  show "\<exists>tr. trace s' = tr @ [Respond 201] \<and> list_all quiet tr"
    using fin t5 by (simp add: respond_def)
qed

lemma place_order_Inl:
  assumes run: "place_order env body its s1 = (s', Inl e)" and w: "txn s1 = Some w"
    and t: "list_all quiet (trace s1)"
  shows "committed s' = committed s1 \<and> failed_at_end (trace s') \<and> (\<exists>n. faults env n = Some e)"
proof -
  let ?ins = "order_statement env body its"
  let ?tot = "js_plus (calculate_subtotal its) (calculate_tax (calculate_subtotal its))"
  obtain s2 r2 where q2: "client_query (faults env) (sql_now env) ?ins s1 = (s2, r2)"
    by (cases "client_query (faults env) (sql_now env) ?ins s1")
  show ?thesis
  proof (cases r2)
    case (Inl e2)
    with q2 run have "s' = s2" "e2 = e" by (simp_all add: place_order_unfold)
    with q2 Inl client_query_Inl(1,2)[of "faults env" "sql_now env" ?ins s1 s2 e2]
      client_query_failed_at_end[of "faults env" "sql_now env" ?ins s1 s2 e2] t
    show ?thesis by (auto simp: order_statement_def)
  next
    case (Inr rows)
    note q2' = q2[unfolded Inr]
    note e2 = insert_order_effect[OF q2'[unfolded order_statement_def] w]
    then obtain order where rows: "rows = [order]" by simp
    have t2: "list_all quiet (trace s2)"
      using client_query_quiet[OF q2' t] by (simp add: order_statement_def)
    obtain s3 r3 where q3: "insert_items env (o_id order) its s2 = (s3, r3)"
      by (cases "insert_items env (o_id order) its s2")
    show ?thesis
    proof (cases r3)
      case (Inl e3)
      with q2' q3 rows run have "s' = s3" "e3 = e" by (simp_all add: place_order_unfold)
      with insert_items_Inl[OF q3[unfolded Inl] e2(4) t2] e2(1) show ?thesis by simp
    next
      case (Inr u3)
      note e3 = insert_items_Inr[OF q3[unfolded Inr] e2(4) t2]
      then obtain w3 where w3: "txn s3 = Some w3" and t3: "list_all quiet (trace s3)"
        and c3: "committed s3 = committed s1" using e2(1) by simp
      obtain s4 r4 where q4: "update_customer_stats env ?tot (customer_id body) s3 = (s4, r4)"
        by (cases "update_customer_stats env ?tot (customer_id body) s3")
      show ?thesis
      proof (cases r4)
        case (Inl e4)
        with q2' q3 \<open>r3 = Inr u3\<close> q4 rows run have "s' = s4" "e4 = e"
          by (simp_all add: place_order_unfold)
        with update_customer_stats_Inl[OF q4[unfolded Inl] w3 t3] c3 show ?thesis by simp
      next
        case (Inr u4)
        note e4 = update_customer_stats_Inr[OF q4[unfolded Inr] w3 t3]
        then have t4: "list_all quiet (trace s4)" and c4: "committed s4 = committed s1"
          using c3 by simp_all
        from q2' q3 \<open>r3 = Inr u3\<close> q4 Inr rows run obtain s5 where
          q5: "client_query (faults env) (sql_now env) Commit s4 = (s5, Inl e)" and "s' = s5"
          by (auto simp: place_order_unfold split: prod.splits sum.splits)
        with client_query_Inl(1,2)[OF q5] client_query_failed_at_end[OF q5 t4] c4
        show ?thesis by auto
      qed
    qed
  qed
qed


lemma connect_simps:
  "committed (connect db seq) = db" "txn (connect db seq) = None"
  "order_seq (connect db seq) = seq" "issued (connect db seq) = 0" "trace (connect db seq) = []"
  by (simp_all add: connect_def)

lemma try_block_begin_fails:
  assumes "faults env 0 = Some e"
  shows "try_block env body (connect db seq) =
           ((connect db seq)\<lparr>issued := 1, trace := [Query Begin False]\<rparr>, Inl e)"
  using assms by (simp add: try_block_def client_query_def connect_def)

lemma try_block_rejects:
  assumes "items body = None \<or> items body = Some []" "faults env 0 = None"
  shows "try_block env body (connect db seq) =
           (\<lparr>committed = db, txn = Some db, order_seq = seq, issued = 1,
             trace = [Query Begin True, Respond 400]\<rparr>,
            Inr (Failure 400 ''Order must have at least one item''))"
  using assms by (auto simp: try_block_def client_query_def connect_def respond_def)

lemma try_block_places:
  assumes "items body = Some its" "its \<noteq> []" "faults env 0 = None"
  shows "try_block env body (connect db seq) =
           place_order env body its
             \<lparr>committed = db, txn = Some db, order_seq = seq, issued = 1,
              trace = [Query Begin True]\<rparr>"
  using assms by (cases its) (auto simp: try_block_def client_query_def connect_def)

lemma try_block_Inl:
  assumes run: "try_block env body (connect db seq) = (s', Inl e)"
  shows "committed s' = db \<and> failed_at_end (trace s') \<and> (\<exists>n. faults env n = Some e)"
proof (cases "faults env 0")
  case (Some e0)
  from run show ?thesis
    unfolding try_block_begin_fails[OF Some] using Some
    by (auto simp: failed_at_end_def connect_def)
next
  case None
  show ?thesis
  proof (cases "items body = None \<or> items body = Some []")
    case True
    from run show ?thesis unfolding try_block_rejects[OF True None] by simp
  next
    case False
    then obtain its where its: "items body = Some its" "its \<noteq> []" by auto
    from run have "place_order env body its
             \<lparr>committed = db, txn = Some db, order_seq = seq, issued = 1,
              trace = [Query Begin True]\<rparr> = (s', Inl e)"
      unfolding try_block_places[OF its None] .
    from place_order_Inl[OF this] show ?thesis by simp
  qed
qed

lemma try_block_Inr:
  assumes run: "try_block env body (connect db seq) = (s', Inr r)"
  shows "\<exists>tr. trace s' = tr @ [Respond (status_code r)] \<and> list_all quiet tr"
    and "status_code r = 400 \<or> status_code r = 201"
    and "status_code r = 400 \<Longrightarrow> committed s' = db"
proof -
  have "faults env 0 = None"
  proof (rule ccontr)
    assume "faults env 0 \<noteq> None"
    then obtain e0 where "faults env 0 = Some e0" by auto
    from run show False unfolding try_block_begin_fails[OF \<open>faults env 0 = Some e0\<close>] by simp
  qed
  note None = this
  have "(\<exists>tr. trace s' = tr @ [Respond (status_code r)] \<and> list_all quiet tr) \<and>
        (status_code r = 400 \<or> status_code r = 201) \<and> (status_code r = 400 \<longrightarrow> committed s' = db)"
  proof (cases "items body = None \<or> items body = Some []")
    case True
    from run show ?thesis unfolding try_block_rejects[OF True None] by auto
  next
    case False
    then obtain its where its: "items body = Some its" "its \<noteq> []" by auto
    from run have po: "place_order env body its
             \<lparr>committed = db, txn = Some db, order_seq = seq, issued = 1,
              trace = [Query Begin True]\<rparr> = (s', Inr r)"
      unfolding try_block_places[OF its None] .
    from place_order_Inr(1,6)[OF po] show ?thesis by simp
  qed
  then show "\<exists>tr. trace s' = tr @ [Respond (status_code r)] \<and> list_all quiet tr"
    and "status_code r = 400 \<or> status_code r = 201"
    and "status_code r = 400 \<Longrightarrow> committed s' = db" by blast+
qed

lemma create_order_cases:
  assumes "create_order env body db seq = (s, r)"
  obtains (sent) s1 resp where "try_block env body (connect db seq) = (s1, Inr resp)"
      "s = release s1" "r = Some resp"
  | (caught) s1 e s2 rows where "try_block env body (connect db seq) = (s1, Inl e)"
      "client_query (faults env) (sql_now env) Rollback s1 = (s2, Inr rows)"
      "s = release (respond 500 s2)" "r = Some (Failure 500 (message e))"
  | (lost) s1 e s2 e' where "try_block env body (connect db seq) = (s1, Inl e)"
      "client_query (faults env) (sql_now env) Rollback s1 = (s2, Inl e')"
      "s = release s2" "r = None"
  using assms by (auto simp: create_order_def split: prod.splits sum.splits)

lemma quiet_no_failure:
  "list_all quiet tr \<Longrightarrow> Query st False \<notin> set tr"
  by (induction tr) auto

lemma quiet_no_rollback:
  "list_all quiet tr \<Longrightarrow> Query Rollback ok \<notin> set tr"
  by (induction tr) auto

lemma quiet_no_response: "list_all quiet tr \<Longrightarrow> responses tr = []"
  by (induction tr rule: responses.induct) auto

lemma responses_append: "responses (xs @ ys) = responses xs @ responses ys"
  by (induction xs rule: responses.induct) auto

lemma failed_at_end_no_response: "failed_at_end tr \<Longrightarrow> responses tr = []"
proof -
  assume f: "failed_at_end tr"
  then have "tr = butlast tr @ [last tr]" by (simp add: failed_at_end_def)
  moreover from f have "responses (butlast tr) = []"
    by (simp add: failed_at_end_def quiet_no_response)
  moreover from f have "responses [last tr] = []"
    by (cases "last tr") (auto simp: failed_at_end_def)
  ultimately show ?thesis by (metis responses_append append_Nil)
qed

lemma failed_at_end_failure:
  "failed_at_end tr \<Longrightarrow> \<exists>st. st \<noteq> Rollback \<and> Query st False \<in> set tr"
proof -
  assume f: "failed_at_end tr"
  then have "last tr \<in> set tr" by (simp add: failed_at_end_def)
  with f show ?thesis by (cases "last tr") (auto simp: failed_at_end_def)
qed

text \<open>
  C2: when a statement of the transaction fails, no write of the request persists (the
  committed tables are those from before the request), \<open>ROLLBACK\<close> is issued right after
  the failed statement, and the 500 response is the only response and comes after the
  \<open>ROLLBACK\<close> has succeeded, with the transaction closed. When \<open>ROLLBACK\<close> fails as well, no
  response is sent.
\<close>

theorem create_order_failure_rolls_back:
  assumes run: "create_order env body db seq = (s, r)"
    and failed: "Query st False \<in> set (trace s)" "st \<noteq> Rollback"
  shows "committed s = db \<and>
         ((\<exists>before n e. trace s = before @ [Query Rollback True, Respond 500, Release] \<and>
            responses before = [] \<and> txn s = None \<and>
            faults env n = Some e \<and> r = Some (Failure 500 (message e))) \<or>
          (\<exists>before. trace s = before @ [Query Rollback False, Release] \<and>
            responses before = [] \<and> r = None))"
  using run
proof (cases rule: create_order_cases)
  case (sent s1 resp)
  from try_block_Inr(1)[OF sent(1)] obtain tr where
    "trace s1 = tr @ [Respond (status_code resp)]" "list_all quiet tr" by blast
  with sent(2) failed quiet_no_failure[of tr st] have False by (auto simp: release_def)
  then show ?thesis ..
next
  case (caught s1 e s2 rows)
  note t = try_block_Inl[OF caught(1)]
  note rb = rollback_effect[OF caught(2)] client_query_Inr[OF caught(2)]
  from t have nr: "responses (trace s1) = []" by (simp add: failed_at_end_no_response)
  from t obtain n where "faults env n = Some e" by blast
  with t rb caught(3,4) nr show ?thesis by (auto simp: release_def respond_def)
next
  case (lost s1 e s2 e')
  note t = try_block_Inl[OF lost(1)]
  note rb = client_query_Inl[OF lost(2)]
  from t have nr: "responses (trace s1) = []" by (simp add: failed_at_end_no_response)
  with t rb lost(3,4) show ?thesis by (auto simp: release_def)
qed

lemmas run_defs = create_order_def try_block_def place_order_def client_query_def connect_def
  respond_def release_def store_def current_def update_customer_stats_def
  calculate_subtotal_def calculate_tax_def bump_customer_def Let_def number_defs
  example_env_def example_body_def example_db_def example_items_def example_customers_def
  failing_env_def no_faults_def foreign_key_violation_def

lemma failing_run:
  "create_order failing_env example_body example_db 1 =
     (\<lparr>committed = example_db, txn = None, order_seq = 2, issued = 4,
       trace = [Query Begin True,
                Query (InsertOrder (Some 7) (generateOrderNumber 1700000000000 [18, 3, 35, 10, 4, 5])
                         25 2 27 None None (Some ''card'')) True,
                Query (InsertOrderItem 1 (Some 1) (Some ''Espresso'') 2 10 20) False,
                Query Rollback True, Respond 500, Release]\<rparr>,
      Some (Failure 500 ''violates foreign key constraint''))"
  by (simp add: run_defs)

text \<open>The first item insert fails: nothing persists and the response is the 500 envelope.\<close>

theorem create_order_failure_rolls_back_witness:
  "Query (InsertOrderItem 1 (Some 1) (Some ''Espresso'') 2 10 20) False
     \<in> set (trace (fst (create_order failing_env example_body example_db 1))) \<and>
   committed (fst (create_order failing_env example_body example_db 1)) = example_db \<and>
   snd (create_order failing_env example_body example_db 1) =
     Some (Failure 500 ''violates foreign key constraint'')"
proof -
  have f: "Query (InsertOrderItem 1 (Some 1) (Some ''Espresso'') 2 10 20) False
     \<in> set (trace (fst (create_order failing_env example_body example_db 1)))"
    by (simp add: failing_run)
  have "committed (fst (create_order failing_env example_body example_db 1)) = example_db"
    using create_order_failure_rolls_back[OF prod.collapse[symmetric] f] by simp
  with f show ?thesis by (simp add: failing_run)
qed



lemma create_order_created:
  assumes run: "create_order env body db seq = (s, Some (Success 201 order))"
  obtains its where "items body = Some its" "its \<noteq> []" "order = new_order env body its seq"
    "orders (committed s) = orders db @ [order]"
    "order_items (committed s) = order_items db @ map (item_row (sql_now env) seq) its"
    "customers (committed s) =
       (if truthy_id (customer_id body)
        then map (bump_customer (o_total order) (sql_now env) (the (customer_id body))) (customers db)
        else customers db)"
    "txn s = None"
proof -
  from run obtain s1 where tb: "try_block env body (connect db seq) = (s1, Inr (Success 201 order))"
    and s: "s = release s1"
    by (cases rule: create_order_cases) auto
  have None: "faults env 0 = None"
  proof (rule ccontr)
    assume "faults env 0 \<noteq> None"
    then obtain e0 where "faults env 0 = Some e0" by auto
    from tb show False unfolding try_block_begin_fails[OF \<open>faults env 0 = Some e0\<close>] by simp
  qed
  have "\<not> (items body = None \<or> items body = Some [])"
  proof
    assume e: "items body = None \<or> items body = Some []"
    from tb show False unfolding try_block_rejects[OF e None] by simp
  qed
  then obtain its where its: "items body = Some its" "its \<noteq> []" by auto
  from tb have po: "place_order env body its
             \<lparr>committed = db, txn = Some db, order_seq = seq, issued = 1,
              trace = [Query Begin True]\<rparr> = (s1, Inr (Success 201 order))"
    unfolding try_block_places[OF its None] .
  note e = place_order_Inr[OF po]
  from e(1) have o: "order = new_order env body its seq" by simp
  show thesis
  proof (rule that[OF its o])
    show "orders (committed s) = orders db @ [order]" using e(2) s o by (simp add: release_def)
    show "order_items (committed s) = order_items db @ map (item_row (sql_now env) seq) its"
      using e(3) s by (simp add: release_def)
    show "customers (committed s) =
       (if truthy_id (customer_id body)
        then map (bump_customer (o_total order) (sql_now env) (the (customer_id body))) (customers db)
        else customers db)" using e(4) s o by (simp add: release_def)
    show "txn s = None" using e(5) s by (simp add: release_def)
  qed
qed



lemma example_run:
  "create_order example_env example_body example_db 1 =
     (\<lparr>committed =
         \<lparr>orders = [example_order],
          order_items =
            [\<lparr>i_order_id = 1, i_product_id = Some 1, i_product_name = Some ''Espresso'',
              i_quantity = 2, i_unit_price = 10, i_total_price = 20, i_created_at = 1700000000\<rparr>,
             \<lparr>i_order_id = 1, i_product_id = Some 2, i_product_name = Some ''Bagel'',
              i_quantity = 1, i_unit_price = 5, i_total_price = 5, i_created_at = 1700000000\<rparr>],
          customers =
            [\<lparr>c_id = 7, c_name = ''Ada'', c_email = ''ada@example.com'', c_phone = None,
              c_segment = ''new'', c_notes = None, c_total_spent = 37, c_order_count = 2,
              c_created_at = 1, c_updated_at = 1700000000\<rparr>,
             \<lparr>c_id = 8, c_name = ''Bob'', c_email = ''bob@example.com'', c_phone = None,
              c_segment = ''vip'', c_notes = None, c_total_spent = 0, c_order_count = 0,
              c_created_at = 2, c_updated_at = 2\<rparr>]\<rparr>,
       txn = None, order_seq = 2, issued = 6,
       trace =
         [Query Begin True,
          Query (InsertOrder (Some 7) (generateOrderNumber 1700000000000 [18, 3, 35, 10, 4, 5])
                   25 2 27 None None (Some ''card'')) True,
          Query (InsertOrderItem 1 (Some 1) (Some ''Espresso'') 2 10 20) True,
          Query (InsertOrderItem 1 (Some 2) (Some ''Bagel'') 1 5 5) True,
          Query (UpdateCustomerStats 27 7) True, Query Commit True, Respond 201, Release]\<rparr>,
      Some (Success 201 example_order))"
  by (simp add: run_defs example_order_def)



lemma rounding_literals:
  "js_literal (7 / 10) = Finite (3152519739159347 / 4503599627370496)"
  "js_literal (55999999999999994 / 10 ^ 18) = Finite (1008806316530991 / 18014398509481984)"
  "js_literal (56 / 1000) = Finite (8070450532247929 / 144115188075855872)"
  "js_literal (756 / 1000) = Finite (3404721318292095 / 4503599627370496)"
  by (simp_all add: number_defs)


text \<open>
  Three units at \<open>0.1\<close>: the subtotal is \<open>0.30000000000000004\<close>, which is neither three
  times the value of the double \<open>0.1\<close> nor the double \<open>0.3\<close>.
\<close>

lemma subtotal_is_rounded:
  "calculate_subtotal
     [\<lparr>product_id = Some 3, product_name = Some ''Cookie'', quantity = 3,
       unit_price = js_literal (1 / 10)\<rparr>] = js_literal (30000000000000004 / 10 ^ 17) \<and>
   js_literal (30000000000000004 / 10 ^ 17) = Finite (1351079888211149 / 4503599627370496) \<and>
   js_literal (1 / 10) = Finite (3602879701896397 / 36028797018963968) \<and>
   (1351079888211149 / 4503599627370496 :: rat) \<noteq> 3 * (3602879701896397 / 36028797018963968) \<and>
   js_literal (30000000000000004 / 10 ^ 17) \<noteq> js_literal (3 / 10)"
  by (simp add: calculate_subtotal_def number_defs)

text \<open>
  C4: a request whose \<open>items\<close> are absent or empty writes no row to any table, and it is
  answered with status 400 when \<open>BEGIN\<close>, which the handler issues before it looks at the
  body, has succeeded.
\<close>

theorem create_order_without_items:
  assumes empty: "items body = None \<or> items body = Some []"
  shows "committed (fst (create_order env body db seq)) = db \<and>
         (faults env 0 = None \<longrightarrow>
            snd (create_order env body db seq) =
              Some (Failure 400 ''Order must have at least one item''))"
proof (cases "faults env 0")
  case None
  show ?thesis
    using None by (simp add: create_order_def try_block_rejects[OF empty None] release_def)
next
  case (Some e)
  show ?thesis
    unfolding create_order_def try_block_begin_fails[OF Some] using Some
    by (simp add: client_query_def Let_def release_def respond_def connect_def
        split: option.splits)
qed

text \<open>An empty item list, with a database that does not fail.\<close>

theorem create_order_without_items_witness:
  "items (example_body\<lparr>items := Some []\<rparr>) = Some [] \<and> faults example_env 0 = None \<and>
   committed (fst (create_order example_env (example_body\<lparr>items := Some []\<rparr>) example_db 1)) = example_db \<and>
   snd (create_order example_env (example_body\<lparr>items := Some []\<rparr>) example_db 1) =
     Some (Failure 400 ''Order must have at least one item'')"
  using create_order_without_items[of "example_body\<lparr>items := Some []\<rparr>" example_env example_db 1]
  by (simp add: example_env_def no_faults_def)

text \<open>
  After a successful order creation with a customer id other than 0 the customers table is
  the old one with exactly the rows of that customer changed, \<open>order_count\<close> by 1 and
  \<open>total_spent\<close> by the order's total (and \<open>updated_at\<close> set); without a customer id it
  is unchanged.
\<close>

lemma create_order_customer_stats:
  assumes run: "create_order env body db seq = (s, Some (Success 201 order))"
  shows "(customer_id body = None \<longrightarrow> customers (committed s) = customers db) \<and>
         (\<forall>cid. customer_id body = Some cid \<and> cid \<noteq> 0 \<longrightarrow>
            customers (committed s) =
              map (\<lambda>c. if c_id c = cid
                       then c\<lparr>c_order_count := c_order_count c + 1,
                              c_total_spent := c_total_spent c + o_total order,
                              c_updated_at := sql_now env\<rparr>
                       else c) (customers db))"
proof -
  from run obtain its where
    c: "customers (committed s) =
       (if truthy_id (customer_id body)
        then map (bump_customer (o_total order) (sql_now env) (the (customer_id body))) (customers db)
        else customers db)"
    by (rule create_order_created)
  show ?thesis
    using c by (auto simp: truthy_id_def bump_customer_def[abs_def])
qed

text \<open>
  The handler tests \<open>if (customer_id)\<close>, and 0 is falsy: an order for the customer 0 is
  stored with that id and no customer row changes.
\<close>

lemma create_order_customer_zero:
  assumes run: "create_order env body db seq = (s, Some (Success 201 order))"
    and zero: "customer_id body = Some 0"
  shows "o_customer_id order = Some 0 \<and> customers (committed s) = customers db"
proof -
  from run obtain its where "order = new_order env body its seq"
    and "customers (committed s) =
       (if truthy_id (customer_id body)
        then map (bump_customer (o_total order) (sql_now env) (the (customer_id body))) (customers db)
        else customers db)"
    by (rule create_order_created)
  with zero show ?thesis by (simp add: truthy_id_def new_order_def)
qed

lemma customer_example:
  "snd (create_order example_env example_body example_db 1) = Some (Success 201 example_order) \<and>
   customer_id example_body = Some 7 \<and> o_total example_order = 27 \<and>
   map c_id (customers example_db) = [7, 8] \<and>
   map c_order_count (customers example_db) = [1, 0] \<and>
   map c_total_spent (customers example_db) = [10, 0] \<and>
   map c_order_count (customers (committed (fst (create_order example_env example_body example_db 1)))) = [2, 0] \<and>
   map c_total_spent (customers (committed (fst (create_order example_env example_body example_db 1)))) = [37, 0]"
proof -
  have "snd (create_order example_env example_body example_db 1) = Some (Success 201 example_order)"
    and "map c_order_count (customers (committed (fst (create_order example_env example_body example_db 1)))) = [2, 0]"
    and "map c_total_spent (customers (committed (fst (create_order example_env example_body example_db 1)))) = [37, 0]"
    by (simp_all add: example_run)
  moreover have "customer_id example_body = Some 7" "o_total example_order = 27"
    "map c_id (customers example_db) = [7, 8]"
    "map c_order_count (customers example_db) = [1, 0]"
    "map c_total_spent (customers example_db) = [10, 0]"
    by (simp_all add: example_body_def example_db_def example_customers_def example_order_def)
  ultimately show ?thesis by blast
qed

lemma zero_run:
  "create_order example_env zero_body zero_db 1 =
     (\<lparr>committed =
         \<lparr>orders = [example_order\<lparr>o_customer_id := Some 0\<rparr>],
          order_items =
            [\<lparr>i_order_id = 1, i_product_id = Some 1, i_product_name = Some ''Espresso'',
              i_quantity = 2, i_unit_price = 10, i_total_price = 20, i_created_at = 1700000000\<rparr>,
             \<lparr>i_order_id = 1, i_product_id = Some 2, i_product_name = Some ''Bagel'',
              i_quantity = 1, i_unit_price = 5, i_total_price = 5, i_created_at = 1700000000\<rparr>],
          customers = zero_customers\<rparr>,
       txn = None, order_seq = 2, issued = 5,
       trace =
         [Query Begin True,
          Query (InsertOrder (Some 0) (generateOrderNumber 1700000000000 [18, 3, 35, 10, 4, 5])
                   25 2 27 None None (Some ''card'')) True,
          Query (InsertOrderItem 1 (Some 1) (Some ''Espresso'') 2 10 20) True,
          Query (InsertOrderItem 1 (Some 2) (Some ''Bagel'') 1 5 5) True,
          Query Commit True, Respond 201, Release]\<rparr>,
      Some (Success 201 (example_order\<lparr>o_customer_id := Some 0\<rparr>)))"
  by (simp add: run_defs example_order_def zero_body_def zero_db_def)

text \<open>
  C5: the customer 0 is stored with 1 order and 10 spent, and the request attaches
  \<open>customer_id\<close> 0 to the two items of the example. The order is created with that
  customer id and the total 27, the handler issues no \<open>UPDATE customers\<close>, and the
  customer still has 1 order and 10 spent.
\<close>

theorem create_order_skips_customer_zero:
  "customer_id zero_body = Some 0 \<and> items zero_body = Some example_items \<and>
   map c_id (customers zero_db) = [0] \<and>
   map c_order_count (customers zero_db) = [1] \<and>
   map c_total_spent (customers zero_db) = [10] \<and>
   snd (create_order example_env zero_body zero_db 1) =
     Some (Success 201 (example_order\<lparr>o_customer_id := Some 0\<rparr>)) \<and>
   o_total (example_order\<lparr>o_customer_id := Some 0\<rparr>) = 27 \<and>
   trace (fst (create_order example_env zero_body zero_db 1)) =
     [Query Begin True,
      Query (InsertOrder (Some 0) (generateOrderNumber 1700000000000 [18, 3, 35, 10, 4, 5])
               25 2 27 None None (Some ''card'')) True,
      Query (InsertOrderItem 1 (Some 1) (Some ''Espresso'') 2 10 20) True,
      Query (InsertOrderItem 1 (Some 2) (Some ''Bagel'') 1 5 5) True,
      Query Commit True, Respond 201, Release] \<and>
   o_customer_id (hd (orders (committed (fst (create_order example_env zero_body zero_db 1))))) = Some 0 \<and>
   map c_order_count (customers (committed (fst (create_order example_env zero_body zero_db 1)))) = [1] \<and>
   map c_total_spent (customers (committed (fst (create_order example_env zero_body zero_db 1)))) = [10]"
proof -
  have "customer_id zero_body = Some 0" "items zero_body = Some example_items"
    "map c_id (customers zero_db) = [0]"
    "map c_order_count (customers zero_db) = [1]"
    "map c_total_spent (customers zero_db) = [10]"
    "o_total (example_order\<lparr>o_customer_id := Some 0\<rparr>) = 27"
    by (simp_all add: zero_body_def zero_db_def zero_customers_def example_body_def
        example_order_def)
  moreover have "snd (create_order example_env zero_body zero_db 1) =
      Some (Success 201 (example_order\<lparr>o_customer_id := Some 0\<rparr>))"
    "trace (fst (create_order example_env zero_body zero_db 1)) =
     [Query Begin True,
      Query (InsertOrder (Some 0) (generateOrderNumber 1700000000000 [18, 3, 35, 10, 4, 5])
               25 2 27 None None (Some ''card'')) True,
      Query (InsertOrderItem 1 (Some 1) (Some ''Espresso'') 2 10 20) True,
      Query (InsertOrderItem 1 (Some 2) (Some ''Bagel'') 1 5 5) True,
      Query Commit True, Respond 201, Release]"
    "o_customer_id (hd (orders (committed (fst (create_order example_env zero_body zero_db 1))))) = Some 0"
    by (simp_all add: zero_run)
  moreover have
    "map c_order_count (customers (committed (fst (create_order example_env zero_body zero_db 1)))) = [1]"
    "map c_total_spent (customers (committed (fst (create_order example_env zero_body zero_db 1)))) = [10]"
    by (simp_all add: zero_run zero_customers_def)
  ultimately show ?thesis by blast
qed

text \<open>
  C10: on the validation path the handler has issued \<open>BEGIN\<close> and nothing else when it
  sends 400 and releases the connection, whose transaction is still open; and in every run
  a \<open>ROLLBACK\<close> in the trace comes with a statement that failed, that is, from \<open>catch\<close>.
\<close>

theorem create_order_validation_leaves_transaction_open:
  assumes empty: "items body = None \<or> items body = Some []" and begun: "faults env 0 = None"
  shows "trace (fst (create_order env body db seq)) = [Query Begin True, Respond 400, Release] \<and>
         txn (fst (create_order env body db seq)) = Some db \<and>
         (Query Rollback ok \<in> set (trace (fst (create_order env' body' db' seq'))) \<longrightarrow>
            (\<exists>st. st \<noteq> Rollback \<and>
                  Query st False \<in> set (trace (fst (create_order env' body' db' seq')))))"
proof (intro conjI impI)
  show "trace (fst (create_order env body db seq)) = [Query Begin True, Respond 400, Release]"
    by (simp add: create_order_def try_block_rejects[OF empty begun] release_def)
  show "txn (fst (create_order env body db seq)) = Some db"
    by (simp add: create_order_def try_block_rejects[OF empty begun] release_def)
next
  obtain s r where run: "create_order env' body' db' seq' = (s, r)"
    by (cases "create_order env' body' db' seq'")
  assume "Query Rollback ok \<in> set (trace (fst (create_order env' body' db' seq')))"
  with run have rb: "Query Rollback ok \<in> set (trace s)" by simp
  from run have "\<exists>st. st \<noteq> Rollback \<and> Query st False \<in> set (trace s)"
  proof (cases rule: create_order_cases)
    case (sent s1 resp)
    from try_block_Inr(1)[OF sent(1)] obtain tr where
      "trace s1 = tr @ [Respond (status_code resp)]" "list_all quiet tr" by blast
    with sent(2) rb quiet_no_rollback[of tr ok] have False by (auto simp: release_def)
    then show ?thesis ..
  next
    case (caught s1 e s2 rows)
    from try_block_Inl[OF caught(1)] failed_at_end_failure[of "trace s1"]
    obtain st where "st \<noteq> Rollback" "Query st False \<in> set (trace s1)" by blast
    with caught(3) client_query_Inr(3)[OF caught(2)] show ?thesis
      by (auto simp: release_def respond_def)
  next
    case (lost s1 e s2 e')
    from try_block_Inl[OF lost(1)] failed_at_end_failure[of "trace s1"]
    obtain st where "st \<noteq> Rollback" "Query st False \<in> set (trace s1)" by blast
    with lost(3) client_query_Inl(5)[OF lost(2)] show ?thesis
      by (auto simp: release_def)
  qed
  with run show "\<exists>st. st \<noteq> Rollback \<and>
                  Query st False \<in> set (trace (fst (create_order env' body' db' seq')))" by simp
qed

text \<open>A body without items, and the run whose first item insert fails.\<close>

theorem create_order_validation_leaves_transaction_open_witness:
  "items (example_body\<lparr>items := None\<rparr>) = None \<and> faults example_env 0 = None \<and>
   trace (fst (create_order example_env (example_body\<lparr>items := None\<rparr>) example_db 1)) =
     [Query Begin True, Respond 400, Release] \<and>
   txn (fst (create_order example_env (example_body\<lparr>items := None\<rparr>) example_db 1)) = Some example_db \<and>
   Query Rollback True \<in> set (trace (fst (create_order failing_env example_body example_db 1))) \<and>
   Query (InsertOrderItem 1 (Some 1) (Some ''Espresso'') 2 10 20) False
     \<in> set (trace (fst (create_order failing_env example_body example_db 1)))"
proof -
  have e: "items (example_body\<lparr>items := None\<rparr>) = None \<or> items (example_body\<lparr>items := None\<rparr>) = Some []"
    by simp
  have b: "faults example_env 0 = None" by (simp add: example_env_def no_faults_def)
  from create_order_validation_leaves_transaction_open[OF e b, of example_db 1]
  show ?thesis using b by (simp add: failing_run)
qed

section \<open>Properties of the partial updates\<close>

lemma update_where_id_rows:
  assumes key: "\<And>r. key (assign r) = key r"
  shows "length (fst (update_where_id env key assign not_found rid rows)) = length rows"
    and "i < length rows \<Longrightarrow>
           fst (update_where_id env key assign not_found rid rows) ! i = rows ! i \<or>
           fst (update_where_id env key assign not_found rid rows) ! i = assign (rows ! i)"
    and "i < length rows \<Longrightarrow> key (rows ! i) \<noteq> rid \<Longrightarrow>
           fst (update_where_id env key assign not_found rid rows) ! i = rows ! i"
  by (auto simp: update_where_id_def Let_def split: option.splits list.splits)

lemma update_where_id_found:
  assumes key: "\<And>r. key (assign r) = key r" and ok: "faults env 0 = None"
    and i: "i < length rows" "key (rows ! i) = rid"
  shows "fst (update_where_id env key assign not_found rid rows) ! i = assign (rows ! i)"
    and "\<exists>r \<in> set rows. key r = rid \<and>
           snd (update_where_id env key assign not_found rid rows) = Success 200 (assign r)"
proof -
  show "fst (update_where_id env key assign not_found rid rows) ! i = assign (rows ! i)"
    using ok i by (auto simp: update_where_id_def Let_def split: list.splits)
  let ?rows' = "map (\<lambda>r. if key r = rid then assign r else r) rows"
  have f: "filter (\<lambda>r. key r = rid) ?rows' = map assign (filter (\<lambda>r. key r = rid) rows)"
    by (induction rows) (auto simp: key)
  from i have "rows ! i \<in> set (filter (\<lambda>r. key r = rid) rows)" by simp
  then obtain r rest where fr: "filter (\<lambda>r. key r = rid) rows = r # rest"
    by (cases "filter (\<lambda>r. key r = rid) rows") auto
  then have "r \<in> set (filter (\<lambda>r. key r = rid) rows)" by simp
  then have "r \<in> set rows" "key r = rid" by simp_all
  moreover have "snd (update_where_id env key assign not_found rid rows) = Success 200 (assign r)"
    using ok f fr by (simp add: update_where_id_def Let_def)
  ultimately show "\<exists>r \<in> set rows. key r = rid \<and>
           snd (update_where_id env key assign not_found rid rows) = Success 200 (assign r)"
    by blast
qed

lemma put_order_frame:
  assumes i: "i < length os"
  shows "(let old = os ! i; new = fst (put_order env rid uo os) ! i
          in o_id new = o_id old \<and>
             o_customer_id new = o_customer_id old \<and>
             o_order_number new = o_order_number old \<and>
             o_subtotal new = o_subtotal old \<and>
             o_tax new = o_tax old \<and>
             o_total new = o_total old \<and>
             o_shipping_address new = o_shipping_address old \<and>
             o_payment_method new = o_payment_method old \<and>
             o_created_at new = o_created_at old \<and>
             (u_status uo = None \<longrightarrow> o_status new = o_status old) \<and>
             (u_payment_status uo = None \<longrightarrow> o_payment_status new = o_payment_status old) \<and>
             (u_notes uo = None \<longrightarrow> o_notes new = o_notes old) \<and>
             (o_id old \<noteq> rid \<longrightarrow> new = old))"
proof -
  have key: "\<And>r. o_id (set_order uo (sql_now env) r) = o_id r"
    by (simp add: set_order_def)
  have cases: "fst (put_order env rid uo os) ! i = os ! i \<or>
      fst (put_order env rid uo os) ! i = set_order uo (sql_now env) (os ! i)"
    unfolding put_order_def
    by (rule update_where_id_rows(2)
          [where key = o_id and assign = "set_order uo (sql_now env)", OF key i])
  have other: "o_id (os ! i) \<noteq> rid \<Longrightarrow> fst (put_order env rid uo os) ! i = os ! i"
    unfolding put_order_def
    by (rule update_where_id_rows(3)
          [where key = o_id and assign = "set_order uo (sql_now env)", OF key i])
  from cases other show ?thesis
    unfolding Let_def by (auto simp: set_order_def coalesce_def coalesce_null_def)
qed

lemma put_product_frame:
  assumes i: "i < length ps"
  shows "(let old = ps ! i; new = fst (put_product env rid up ps) ! i
          in p_id new = p_id old \<and>
             p_created_at new = p_created_at old \<and>
             (pu_name up = None \<longrightarrow> p_name new = p_name old) \<and>
             (pu_description up = None \<longrightarrow> p_description new = p_description old) \<and>
             (pu_price up = None \<longrightarrow> p_price new = p_price old) \<and>
             (pu_category up = None \<longrightarrow> p_category new = p_category old) \<and>
             (pu_inventory_count up = None \<longrightarrow> p_inventory_count new = p_inventory_count old) \<and>
             (pu_sku up = None \<longrightarrow> p_sku new = p_sku old) \<and>
             (pu_active up = None \<longrightarrow> p_active new = p_active old) \<and>
             (pu_image_url up = None \<longrightarrow> p_image_url new = p_image_url old) \<and>
             (p_id old \<noteq> rid \<longrightarrow> new = old))"
proof -
  have key: "\<And>r. p_id (set_product up (sql_now env) r) = p_id r"
    by (simp add: set_product_def)
  have cases: "fst (put_product env rid up ps) ! i = ps ! i \<or>
      fst (put_product env rid up ps) ! i = set_product up (sql_now env) (ps ! i)"
    unfolding put_product_def
    by (rule update_where_id_rows(2)
          [where key = p_id and assign = "set_product up (sql_now env)", OF key i])
  have other: "p_id (ps ! i) \<noteq> rid \<Longrightarrow> fst (put_product env rid up ps) ! i = ps ! i"
    unfolding put_product_def
    by (rule update_where_id_rows(3)
          [where key = p_id and assign = "set_product up (sql_now env)", OF key i])
  from cases other show ?thesis
    unfolding Let_def by (auto simp: set_product_def coalesce_def coalesce_null_def)
qed

lemma put_customer_frame:
  assumes i: "i < length cs"
  shows "(let old = cs ! i; new = fst (put_customer env rid uc cs) ! i
          in c_id new = c_id old \<and>
             c_created_at new = c_created_at old \<and>
             (cu_name uc = None \<longrightarrow> c_name new = c_name old) \<and>
             (cu_email uc = None \<longrightarrow> c_email new = c_email old) \<and>
             (cu_phone uc = None \<longrightarrow> c_phone new = c_phone old) \<and>
             (cu_segment uc = None \<longrightarrow> c_segment new = c_segment old) \<and>
             (cu_notes uc = None \<longrightarrow> c_notes new = c_notes old) \<and>
             (cu_total_spent uc = None \<longrightarrow> c_total_spent new = c_total_spent old) \<and>
             (cu_order_count uc = None \<longrightarrow> c_order_count new = c_order_count old) \<and>
             (c_id old \<noteq> rid \<longrightarrow> new = old))"
proof -
  have key: "\<And>r. c_id (set_customer uc (sql_now env) r) = c_id r"
    by (simp add: set_customer_def)
  have cases: "fst (put_customer env rid uc cs) ! i = cs ! i \<or>
      fst (put_customer env rid uc cs) ! i = set_customer uc (sql_now env) (cs ! i)"
    unfolding put_customer_def
    by (rule update_where_id_rows(2)
          [where key = c_id and assign = "set_customer uc (sql_now env)", OF key i])
  have other: "c_id (cs ! i) \<noteq> rid \<Longrightarrow> fst (put_customer env rid uc cs) ! i = cs ! i"
    unfolding put_customer_def
    by (rule update_where_id_rows(3)
          [where key = c_id and assign = "set_customer uc (sql_now env)", OF key i])
  from cases other show ?thesis
    unfolding Let_def by (auto simp: set_customer_def coalesce_def coalesce_null_def)
qed

lemma put_competitor_frame:
  assumes i: "i < length ks"
  shows "(let old = ks ! i; new = fst (put_competitor stringify env rid uk ks) ! i
          in k_id new = k_id old \<and>
             k_created_at new = k_created_at old \<and>
             (ku_name uk = None \<longrightarrow> k_name new = k_name old) \<and>
             (ku_website uk = None \<longrightarrow> k_website new = k_website old) \<and>
             (ku_distance uk = None \<longrightarrow> k_distance new = k_distance old) \<and>
             (ku_type uk = None \<longrightarrow> k_type new = k_type old) \<and>
             (ku_threat_level uk = None \<longrightarrow> k_threat_level new = k_threat_level old) \<and>
             (ku_rating uk = None \<longrightarrow> k_rating new = k_rating old) \<and>
             (ku_rating_change uk = None \<longrightarrow> k_rating_change new = k_rating_change old) \<and>
             (ku_review_count uk = None \<longrightarrow> k_review_count new = k_review_count old) \<and>
             (ku_avg_price uk = None \<longrightarrow> k_avg_price new = k_avg_price old) \<and>
             (ku_price_diff uk = None \<longrightarrow> k_price_diff new = k_price_diff old) \<and>
             (ku_strengths uk = None \<longrightarrow> k_strengths new = k_strengths old) \<and>
             (ku_weaknesses uk = None \<longrightarrow> k_weaknesses new = k_weaknesses old) \<and>
             (ku_top_items uk = None \<longrightarrow> k_top_items new = k_top_items old) \<and>
             (ku_sentiment uk = None \<longrightarrow> k_sentiment new = k_sentiment old) \<and>
             (ku_notes uk = None \<longrightarrow> k_notes new = k_notes old) \<and>
             (k_id old \<noteq> rid \<longrightarrow> new = old))"
proof -
  have key: "\<And>r. k_id (set_competitor stringify uk (sql_now env) r) = k_id r"
    by (simp add: set_competitor_def)
  have cases: "fst (put_competitor stringify env rid uk ks) ! i = ks ! i \<or>
      fst (put_competitor stringify env rid uk ks) ! i = set_competitor stringify uk (sql_now env) (ks ! i)"
    unfolding put_competitor_def
    by (rule update_where_id_rows(2)
          [where key = k_id and assign = "set_competitor stringify uk (sql_now env)", OF key i])
  have other: "k_id (ks ! i) \<noteq> rid \<Longrightarrow> fst (put_competitor stringify env rid uk ks) ! i = ks ! i"
    unfolding put_competitor_def
    by (rule update_where_id_rows(3)
          [where key = k_id and assign = "set_competitor stringify uk (sql_now env)", OF key i])
  from cases other show ?thesis
    unfolding Let_def by (auto simp: set_competitor_def coalesce_def coalesce_null_def stringify_if_truthy_def)
qed

text \<open>
  C6: a partial update leaves every column whose field the body omits at its stored value,
  changes no column that the statement does not assign (\<open>updated_at\<close> apart), and leaves
  every row with another id as it is; for orders, products, customers and competitors.
\<close>

theorem partial_update_keeps_omitted_fields:
  "(i < length os \<longrightarrow>
            (let old = os ! i; new = fst (put_order env rid uo os) ! i
             in o_id new = o_id old \<and>
                o_customer_id new = o_customer_id old \<and>
                o_order_number new = o_order_number old \<and>
                o_subtotal new = o_subtotal old \<and>
                o_tax new = o_tax old \<and>
                o_total new = o_total old \<and>
                o_shipping_address new = o_shipping_address old \<and>
                o_payment_method new = o_payment_method old \<and>
                o_created_at new = o_created_at old \<and>
                (u_status uo = None \<longrightarrow> o_status new = o_status old) \<and>
                (u_payment_status uo = None \<longrightarrow> o_payment_status new = o_payment_status old) \<and>
                (u_notes uo = None \<longrightarrow> o_notes new = o_notes old) \<and>
                (o_id old \<noteq> rid \<longrightarrow> new = old))) \<and>
   (i < length ps \<longrightarrow>
            (let old = ps ! i; new = fst (put_product env rid up ps) ! i
             in p_id new = p_id old \<and>
                p_created_at new = p_created_at old \<and>
                (pu_name up = None \<longrightarrow> p_name new = p_name old) \<and>
                (pu_description up = None \<longrightarrow> p_description new = p_description old) \<and>
                (pu_price up = None \<longrightarrow> p_price new = p_price old) \<and>
                (pu_category up = None \<longrightarrow> p_category new = p_category old) \<and>
                (pu_inventory_count up = None \<longrightarrow> p_inventory_count new = p_inventory_count old) \<and>
                (pu_sku up = None \<longrightarrow> p_sku new = p_sku old) \<and>
                (pu_active up = None \<longrightarrow> p_active new = p_active old) \<and>
                (pu_image_url up = None \<longrightarrow> p_image_url new = p_image_url old) \<and>
                (p_id old \<noteq> rid \<longrightarrow> new = old))) \<and>
   (i < length cs \<longrightarrow>
            (let old = cs ! i; new = fst (put_customer env rid uc cs) ! i
             in c_id new = c_id old \<and>
                c_created_at new = c_created_at old \<and>
                (cu_name uc = None \<longrightarrow> c_name new = c_name old) \<and>
                (cu_email uc = None \<longrightarrow> c_email new = c_email old) \<and>
                (cu_phone uc = None \<longrightarrow> c_phone new = c_phone old) \<and>
                (cu_segment uc = None \<longrightarrow> c_segment new = c_segment old) \<and>
                (cu_notes uc = None \<longrightarrow> c_notes new = c_notes old) \<and>
                (cu_total_spent uc = None \<longrightarrow> c_total_spent new = c_total_spent old) \<and>
                (cu_order_count uc = None \<longrightarrow> c_order_count new = c_order_count old) \<and>
                (c_id old \<noteq> rid \<longrightarrow> new = old))) \<and>
   (i < length ks \<longrightarrow>
            (let old = ks ! i; new = fst (put_competitor stringify env rid uk ks) ! i
             in k_id new = k_id old \<and>
                k_created_at new = k_created_at old \<and>
                (ku_name uk = None \<longrightarrow> k_name new = k_name old) \<and>
                (ku_website uk = None \<longrightarrow> k_website new = k_website old) \<and>
                (ku_distance uk = None \<longrightarrow> k_distance new = k_distance old) \<and>
                (ku_type uk = None \<longrightarrow> k_type new = k_type old) \<and>
                (ku_threat_level uk = None \<longrightarrow> k_threat_level new = k_threat_level old) \<and>
                (ku_rating uk = None \<longrightarrow> k_rating new = k_rating old) \<and>
                (ku_rating_change uk = None \<longrightarrow> k_rating_change new = k_rating_change old) \<and>
                (ku_review_count uk = None \<longrightarrow> k_review_count new = k_review_count old) \<and>
                (ku_avg_price uk = None \<longrightarrow> k_avg_price new = k_avg_price old) \<and>
                (ku_price_diff uk = None \<longrightarrow> k_price_diff new = k_price_diff old) \<and>
                (ku_strengths uk = None \<longrightarrow> k_strengths new = k_strengths old) \<and>
                (ku_weaknesses uk = None \<longrightarrow> k_weaknesses new = k_weaknesses old) \<and>
                (ku_top_items uk = None \<longrightarrow> k_top_items new = k_top_items old) \<and>
                (ku_sentiment uk = None \<longrightarrow> k_sentiment new = k_sentiment old) \<and>
                (ku_notes uk = None \<longrightarrow> k_notes new = k_notes old) \<and>
                (k_id old \<noteq> rid \<longrightarrow> new = old)))"
  by (intro conjI impI put_order_frame put_product_frame put_customer_frame
      put_competitor_frame; assumption)


lemma stored_order_run:
  "put_order later_env 5 only_status [stored_order] =
     ([stored_order\<lparr>o_status := ''completed'', o_updated_at := 1700000600\<rparr>],
      Success 200 (stored_order\<lparr>o_status := ''completed'', o_updated_at := 1700000600\<rparr>))"
  by (simp add: put_order_def update_where_id_def set_order_def coalesce_def coalesce_null_def
      later_env_def example_env_def no_faults_def only_status_def stored_order_def)

text \<open>
  The example of the specification: an update of an order with only \<open>status\<close> leaves
  \<open>payment_status\<close> and \<open>notes\<close> as stored.
\<close>

theorem partial_update_keeps_omitted_fields_witness:
  "u_payment_status only_status = None \<and> u_notes only_status = None \<and>
   o_payment_status stored_order = ''paid'' \<and> o_notes stored_order = Some ''leave at the door'' \<and>
   o_status (fst (put_order later_env 5 only_status [stored_order]) ! 0) = ''completed'' \<and>
   o_payment_status (fst (put_order later_env 5 only_status [stored_order]) ! 0) = ''paid'' \<and>
   o_notes (fst (put_order later_env 5 only_status [stored_order]) ! 0) = Some ''leave at the door''"
proof -
  have u: "u_payment_status only_status = None" "u_notes only_status = None"
    by (simp_all add: only_status_def)
  have "0 < length [stored_order]" by simp
  with partial_update_keeps_omitted_fields[of 0 "[stored_order]" later_env 5 only_status] u
  have "o_payment_status (fst (put_order later_env 5 only_status [stored_order]) ! 0) =
          o_payment_status ([stored_order] ! 0)"
    and "o_notes (fst (put_order later_env 5 only_status [stored_order]) ! 0) =
          o_notes ([stored_order] ! 0)"
    unfolding Let_def by blast+
  moreover have "o_status (fst (put_order later_env 5 only_status [stored_order]) ! 0) = ''completed''"
    by (simp add: stored_order_run)
  moreover have "o_payment_status stored_order = ''paid''"
    "o_notes stored_order = Some ''leave at the door''"
    by (simp_all add: stored_order_def)
  ultimately show ?thesis using u by simp
qed

text \<open>
  C9: the customer update takes \<open>total_spent\<close> and \<open>order_count\<close> from the body and stores
  them in place of the counters, in the table and in the row it returns.
\<close>

theorem put_customer_overwrites_counters:
  assumes ok: "faults env 0 = None"
    and u: "cu_total_spent u = Some spent" "cu_order_count u = Some n"
    and i: "i < length rows" "c_id (rows ! i) = rid"
  shows "c_total_spent (fst (put_customer env rid u rows) ! i) = spent \<and>
         c_order_count (fst (put_customer env rid u rows) ! i) = n \<and>
         (\<exists>r. snd (put_customer env rid u rows) = Success 200 r \<and>
              c_total_spent r = spent \<and> c_order_count r = n)"
proof -
  have key: "\<And>r. c_id (set_customer u (sql_now env) r) = c_id r"
    by (simp add: set_customer_def)
  note found = update_where_id_found
    [where key = c_id and assign = "set_customer u (sql_now env)", OF key ok i]
  have stored: "fst (put_customer env rid u rows) ! i = set_customer u (sql_now env) (rows ! i)"
    unfolding put_customer_def by (rule found(1))
  from found(2)[of "''Customer not found''"] obtain r where
    "snd (put_customer env rid u rows) = Success 200 (set_customer u (sql_now env) r)"
    unfolding put_customer_def by blast
  with stored u show ?thesis
    by (simp add: set_customer_def coalesce_def)
qed

text \<open>Customer 7, with 10 spent in 1 order, is set to 0 spent in 99 orders.\<close>

theorem put_customer_overwrites_counters_witness:
  "faults later_env 0 = None \<and> cu_total_spent only_counters = Some 0 \<and>
   cu_order_count only_counters = Some 99 \<and> c_id (example_customers ! 0) = 7 \<and>
   c_total_spent (example_customers ! 0) = 10 \<and> c_order_count (example_customers ! 0) = 1 \<and>
   c_total_spent (fst (put_customer later_env 7 only_counters example_customers) ! 0) = 0 \<and>
   c_order_count (fst (put_customer later_env 7 only_counters example_customers) ! 0) = 99"
proof -
  have ok: "faults later_env 0 = None"
    by (simp add: later_env_def example_env_def no_faults_def)
  have u: "cu_total_spent only_counters = Some 0" "cu_order_count only_counters = Some 99"
    by (simp_all add: only_counters_def)
  have i: "0 < length example_customers" "c_id (example_customers ! 0) = 7"
    by (simp_all add: example_customers_def)
  from put_customer_overwrites_counters[OF ok u i]
  have "c_total_spent (fst (put_customer later_env 7 only_counters example_customers) ! 0) = 0"
    and "c_order_count (fst (put_customer later_env 7 only_counters example_customers) ! 0) = 99"
    by blast+
  moreover have "c_total_spent (example_customers ! 0) = 10" "c_order_count (example_customers ! 0) = 1"
    by (simp_all add: example_customers_def)
  ultimately show ?thesis using ok u i by simp
qed

section \<open>Properties of customer creation\<close>

lemma post_customer_created:
  assumes "post_customer env b tbl = (tbl', Success 201 row)"
  shows "cb_email b = Some (c_email row)" "fst tbl' = fst tbl @ [row]"
  using assms
  by (auto simp: post_customer_def insert_customer_def falsy_def or_else_def Let_def
      split: if_splits option.splits prod.splits sum.splits)

text \<open>
  C7: after a customer has been created, a second creation request with the same email
  leaves the table as it is, the first customer's row included; when the database raises
  no other error the answer has status 400, and for a request that has a name it is the
  envelope saying that a customer with this email already exists, which the handler sends
  for the error code 23505 of the unique violation.
\<close>

theorem duplicate_email_is_rejected:
  assumes first: "post_customer env1 b1 tbl = (tbl1, Success 201 row1)"
    and same: "cb_email b2 = cb_email b1"
  shows "fst (post_customer env2 b2 tbl1) = tbl1 \<and> row1 \<in> set (fst tbl1) \<and>
         (faults env2 0 = None \<longrightarrow>
            status_code (snd (post_customer env2 b2 tbl1)) = 400 \<and>
            (\<not> falsy (cb_name b2) \<longrightarrow>
               snd (post_customer env2 b2 tbl1) =
                 Failure 400 ''Customer with this email already exists''))"
proof -
  note c = post_customer_created[OF first]
  from c same have email: "cb_email b2 = Some (c_email row1)" by simp
  from c have stored: "row1 \<in> set (fst tbl1)" "c_email row1 \<in> set (map c_email (fst tbl1))"
    by simp_all
  have unchanged: "fst (post_customer env2 b2 tbl1) = tbl1"
    using email stored
    by (auto simp: post_customer_def insert_customer_def or_else_def Let_def
        split: option.splits)
  have nonempty: "c_email row1 \<noteq> []"
    using first c(1) by (auto simp: post_customer_def falsy_def split: if_splits)
  have rejected: "status_code (snd (post_customer env2 b2 tbl1)) = 400 \<and>
            (\<not> falsy (cb_name b2) \<longrightarrow>
               snd (post_customer env2 b2 tbl1) =
                 Failure 400 ''Customer with this email already exists'')"
    if "faults env2 0 = None"
    using that email stored nonempty
    by (auto simp: post_customer_def insert_customer_def or_else_def falsy_def
        unique_violation_def)
  from unchanged stored(1) rejected show ?thesis by blast
qed

lemma ada_run: "post_customer example_env ada ([], 1) = (([ada_row], 2), Success 201 ada_row)"
  by (simp add: post_customer_def insert_customer_def falsy_def or_else_def ada_def ada_row_def Let_def
      example_env_def no_faults_def)

text \<open>Ada is created in an empty table; a second request with her email is refused.\<close>

theorem duplicate_email_is_rejected_witness:
  "post_customer example_env ada ([], 1) = (([ada_row], 2), Success 201 ada_row) \<and>
   cb_email ada_again = cb_email ada \<and> faults later_env 0 = None \<and>
   post_customer later_env ada_again ([ada_row], 2) =
     (([ada_row], 2), Failure 400 ''Customer with this email already exists'')"
proof -
  have same: "cb_email ada_again = cb_email ada" by (simp add: ada_def ada_again_def)
  have ok: "faults later_env 0 = None"
    by (simp add: later_env_def example_env_def no_faults_def)
  have named: "\<not> falsy (cb_name ada_again)" by (simp add: falsy_def ada_again_def)
  from duplicate_email_is_rejected[OF ada_run same, of later_env] ok named
  have "fst (post_customer later_env ada_again ([ada_row], 2)) = ([ada_row], 2)"
    and "snd (post_customer later_env ada_again ([ada_row], 2)) =
           Failure 400 ''Customer with this email already exists''"
    by blast+
  then have "post_customer later_env ada_again ([ada_row], 2) =
     (([ada_row], 2), Failure 400 ''Customer with this email already exists'')"
    by (metis prod.collapse)
  with ada_run same ok show ?thesis by simp
qed

section \<open>Properties of the list endpoints\<close>

subsection \<open>Reading back a decimal number\<close>

lemma below_ten:
  "(d::nat) < 10 \<Longrightarrow> d \<in> {0, 1, 2, 3, 4, 5, 6, 7, 8, 9}"
  by auto

lemma hex_value_decimal_digit:
  "d < 10 \<Longrightarrow> hex_value (decimal_digit d) = Some d"
proof -
  assume "d < 10"
  then consider "d = 0" | "d = 1" | "d = 2" | "d = 3" | "d = 4" | "d = 5" | "d = 6" | "d = 7"
    | "d = 8" | "d = 9" using below_ten[of d] by auto
  then show ?thesis
    by cases (simp_all add: hex_value_def decimal_digit_def)
qed

lemma digit_value_decimal_digit:
  "d < 10 \<Longrightarrow> digit_value 10 (decimal_digit d) = Some d"
  by (simp add: digit_value_def hex_value_decimal_digit)

lemma decimal_digit_plain:
  assumes "d < 10"
  shows "\<not> js_whitespace (decimal_digit d)" "decimal_digit d \<noteq> CHR ''-''"
    "decimal_digit d \<noteq> CHR ''+''" "decimal_digit d \<noteq> CHR ''x''" "decimal_digit d \<noteq> CHR ''X''"
proof -
  from assms consider "d = 0" | "d = 1" | "d = 2" | "d = 3" | "d = 4" | "d = 5" | "d = 6" | "d = 7"
    | "d = 8" | "d = 9" using below_ten[of d] by auto
  then show "\<not> js_whitespace (decimal_digit d)" "decimal_digit d \<noteq> CHR ''-''"
    "decimal_digit d \<noteq> CHR ''+''" "decimal_digit d \<noteq> CHR ''x''" "decimal_digit d \<noteq> CHR ''X''"
    by (cases; simp add: js_whitespace_def decimal_digit_def)+
qed

lemma decimal_digits:
  "\<exists>d ds. decimal n = decimal_digit d # map decimal_digit ds \<and> d < 10 \<and> (\<forall>x \<in> set ds. x < 10)"
proof (induction n rule: decimal.induct)
  case (1 n)
  show ?case
  proof (cases "n < 10")
    case True
    then have "decimal n = decimal_digit n # map decimal_digit []"
      by (simp add: decimal.simps)
    with True show ?thesis by (intro exI[of _ n] exI[of _ "[]"]) simp
  next
    case False
    with 1 obtain d ds where h: "decimal (n div 10) = decimal_digit d # map decimal_digit ds"
      "d < 10" "\<forall>x \<in> set ds. x < 10" by blast
    from False have "decimal n = decimal (n div 10) @ [decimal_digit (n mod 10)]"
      by (subst decimal.simps) simp
    with h have "decimal n = decimal_digit d # map decimal_digit (ds @ [n mod 10])" by simp
    moreover have "\<forall>x \<in> set (ds @ [n mod 10]). x < 10" using h(3) by simp
    ultimately show ?thesis using h(2) by blast
  qed
qed

lemma digits_value_snoc:
  "digits_value radix (z @ [c]) =
     digits_value radix z * radix + (case digit_value radix c of Some d \<Rightarrow> d | None \<Rightarrow> 0)"
  by (simp add: digits_value_def)

lemma digits_value_decimal: "digits_value 10 (decimal n) = n"
proof (induction n rule: decimal.induct)
  case (1 n)
  show ?case
  proof (cases "n < 10")
    case True
    then show ?thesis
      by (simp add: decimal.simps digits_value_def digit_value_decimal_digit)
  next
    case False
    then have "decimal n = decimal (n div 10) @ [decimal_digit (n mod 10)]"
      by (subst decimal.simps) simp
    with 1 False show ?thesis
      by (simp add: digits_value_snoc digit_value_decimal_digit)
  qed
qed

lemma parseInt_decimal: "parseInt (decimal n) = Some (int n)"
proof -
  obtain d ds where h: "decimal n = decimal_digit d # map decimal_digit ds"
    "d < 10" "\<forall>x \<in> set ds. x < 10" using decimal_digits by blast
  note p = decimal_digit_plain[OF h(2)]
  have s1: "dropWhile js_whitespace (decimal n) = decimal n" using h(1) p(1) by simp
  have sign: "take 1 (decimal n) \<noteq> ''-''" "take 1 (decimal n) \<noteq> ''+''"
    using h(1) p(2,3) by simp_all
  have nohex: "take 2 (decimal n) \<noteq> ''0x''" "take 2 (decimal n) \<noteq> ''0X''"
  proof -
    show "take 2 (decimal n) \<noteq> ''0x''"
    proof (cases ds)
      case Nil
      with h(1) show ?thesis by simp
    next
      case (Cons x xs)
      with h(3) have "x < 10" by simp
      from decimal_digit_plain(4)[OF this] h(1) Cons show ?thesis by simp
    qed
    show "take 2 (decimal n) \<noteq> ''0X''"
    proof (cases ds)
      case Nil
      with h(1) show ?thesis by simp
    next
      case (Cons x xs)
      with h(3) have "x < 10" by simp
      from decimal_digit_plain(5)[OF this] h(1) Cons show ?thesis by simp
    qed
  qed
  have all: "takeWhile (\<lambda>c. digit_value 10 c \<noteq> None) (decimal n) = decimal n"
    using h by (auto simp: digit_value_decimal_digit intro!: takeWhile_eq_all_conv[THEN iffD2])
  have ne: "decimal n \<noteq> []" using h(1) by simp
  show ?thesis
    using s1 sign nohex ne
    by (simp add: parseInt_def Let_def digits_value_decimal all
        del: not_None_eq takeWhile_eq_all_conv)
qed

subsection \<open>Placeholders and bound values\<close>

lemma binds_iff: "binds used params \<longleftrightarrow> set used = {1..length params}"
proof -
  have range: "set [1..<Suc (length params)] = {1..length params}"
    by (simp only: set_upt atLeastLessThanSuc_atLeastAtMost)
  have below: "(\<forall>n \<in> set used. 1 \<le> n \<and> n \<le> length params) \<longleftrightarrow> set used \<subseteq> {1..length params}"
    by (simp add: subset_iff Ball_def)
  have above: "(\<forall>n \<in> {1..length params}. n \<in> set used) \<longleftrightarrow> {1..length params} \<subseteq> set used"
    by (simp add: subset_iff Ball_def)
  show ?thesis
    unfolding binds_def list_all_iff range below above by blast
qed

lemma param_append:
  "1 \<le> n \<Longrightarrow> n \<le> length ps \<Longrightarrow> param (ps @ extra) n = param ps n"
  by (cases n) (simp_all add: param_def nth_append)

lemma param_last_two:
  "param (ps @ [x, y]) (Suc (length ps)) = x" "param (ps @ [x, y]) (Suc (Suc (length ps))) = y"
  by (simp_all add: param_def nth_append)

lemma eval_condition_append:
  assumes "\<forall>n \<in> set (placeholders c). 1 \<le> n \<and> n \<le> length ps"
  shows "eval_condition db col (ps @ extra) c = eval_condition db col ps c"
  using assms by (cases c) (simp_all add: param_append)

lemma eval_where_append:
  assumes "\<forall>n \<in> set (concat (map placeholders cs)). 1 \<le> n \<and> n \<le> length ps"
  shows "eval_where db col (ps @ extra) cs = eval_where db col ps cs"
  using assms
proof (induction cs)
  case Nil
  show ?case by simp
next
  case (Cons c cs)
  from Cons.prems have c: "\<forall>n \<in> set (placeholders c). 1 \<le> n \<and> n \<le> length ps"
    and rest: "\<forall>n \<in> set (concat (map placeholders cs)). 1 \<le> n \<and> n \<le> length ps"
    by simp_all
  show ?case using eval_condition_append[OF c] Cons.IH[OF rest] by simp
qed

lemma matching_append:
  assumes "set (concat (map placeholders cs)) = {1..length ps}"
  shows "matching db rel cs (ps @ extra) = matching db rel cs ps"
proof -
  from assms have "\<forall>n \<in> set (concat (map placeholders cs)). 1 \<le> n \<and> n \<le> length ps"
    by simp
  then show ?thesis by (simp add: matching_def eval_where_append)
qed

lemma slice_off_two_append: "slice_off_two (ps @ [x, y]) = ps"
  by (simp add: slice_off_two_def)

lemma page_query_binds:
  assumes "set (concat (map placeholders cs)) = {1..length ps}"
  shows "binds (select_placeholders
           \<lparr>where_clause = cs, limit_offset = Some (length ps + 1, length ps + 2)\<rparr>)
           (ps @ [x, y])"
proof -
  have "{1..length ps} \<union> {length ps + 1, length ps + 2} = {1..length ps + 2}"
    by (simp only: set_eq_iff Un_iff atLeastAtMost_iff insert_iff empty_iff) arith
  with assms show ?thesis
    unfolding binds_iff select_placeholders_def by simp
qed

lemma count_query_binds:
  assumes "set (concat (map placeholders cs)) = {1..length ps}"
  shows "binds (concat (map placeholders cs)) ps"
  using assms by (simp add: binds_iff)

text \<open>What the two queries of a handler return when the placeholders are numbered well.\<close>

lemma select_rows_page:
  assumes num: "set (concat (map placeholders cs)) = {1..length ps}"
  shows "select_rows db rel \<lparr>where_clause = cs, limit_offset = Some (length ps + 1, length ps + 2)\<rparr>
           (ps @ [x, y]) =
         (case (as_bigint db x, as_bigint db y) of
            (Some n, Some m) \<Rightarrow>
              if n < 0 \<or> m < 0 then Inl negative_limit
              else Inr (take (nat n) (drop (nat m) (rel_order rel (matching db rel cs (ps @ [x, y])))))
          | _ \<Rightarrow> Inl invalid_integer)"
  using page_query_binds[OF num, of x y]
  by (simp add: select_rows_def param_last_two Let_def cong: option.case_cong)

lemma select_count_total:
  assumes num: "set (concat (map placeholders cs)) = {1..length ps}"
  shows "select_count db rel cs ps = Inr (length (matching db rel cs (ps @ extra)))"
  using count_query_binds[OF num] by (simp add: select_count_def matching_append[OF num])

lemma respond_page_Success:
  assumes "respond_page db env rel query params ccs cps sl so = Success 200 e"
  obtains rows n where "select_rows db rel query params = Inr rows"
    "select_count db rel ccs cps = Inr n" "e_data e = rows" "e_total e = Some (int n)"
    "faults env 0 = None" "faults env 1 = None"
  using assms
  by (auto simp: respond_page_def pool_query_def parseInt_decimal
      split: sum.splits option.splits)

lemma page_total:
  assumes num: "set (concat (map placeholders cs)) = {1..length ps}"
    and run: "respond_page db env rel
                \<lparr>where_clause = cs, limit_offset = Some (length ps + 1, length ps + 2)\<rparr>
                (ps @ [x, y]) cs ps sl so = Success 200 e"
  shows "e_total e = Some (int (length (matching db rel cs (ps @ [x, y])))) \<and>
         (\<exists>n m. as_bigint db x = Some n \<and> as_bigint db y = Some m \<and> 0 \<le> n \<and> 0 \<le> m \<and>
            e_data e = take (nat n) (drop (nat m) (rel_order rel (matching db rel cs (ps @ [x, y])))))"
proof -
  from run obtain rows n where
    page: "select_rows db rel \<lparr>where_clause = cs, limit_offset = Some (length ps + 1, length ps + 2)\<rparr>
             (ps @ [x, y]) = Inr rows"
    and count: "select_count db rel cs ps = Inr n"
    and e: "e_data e = rows" "e_total e = Some (int n)"
    by (rule respond_page_Success)
  from count have "n = length (matching db rel cs (ps @ [x, y]))"
    unfolding select_count_total[OF num, of db rel "[x, y]"] by simp
  moreover from page have "\<exists>n m. as_bigint db x = Some n \<and> as_bigint db y = Some m \<and> 0 \<le> n \<and> 0 \<le> m \<and>
            rows = take (nat n) (drop (nat m) (rel_order rel (matching db rel cs (ps @ [x, y]))))"
    unfolding select_rows_page[OF num]
    by (auto split: option.splits if_splits)
  ultimately show ?thesis using e by simp
qed

lemma page_succeeds:
  assumes num: "set (concat (map placeholders cs)) = {1..length ps}"
    and ok: "faults env 0 = None" "faults env 1 = None"
    and lim: "as_bigint db x = Some n" "0 \<le> n" and off: "as_bigint db y = Some m" "0 \<le> m"
  shows "\<exists>e. respond_page db env rel
                \<lparr>where_clause = cs, limit_offset = Some (length ps + 1, length ps + 2)\<rparr>
                (ps @ [x, y]) cs ps sl so = Success 200 e"
proof -
  have count: "select_count db rel cs ps = Inr (length (matching db rel cs ps))"
    using select_count_total[OF num, of db rel "[]"] by simp
  show ?thesis
    unfolding respond_page_def pool_query_def select_rows_page[OF num] count
    using ok lim off by simp
qed

lemma page_independent:
  assumes num: "set (concat (map placeholders cs)) = {1..length ps}"
    and r1: "respond_page db env rel
            \<lparr>where_clause = cs, limit_offset = Some (length ps + 1, length ps + 2)\<rparr>
            (ps @ [x, y]) cs ps sl so = Success 200 e"
    and r2: "respond_page db env2 rel
            \<lparr>where_clause = cs, limit_offset = Some (length ps + 1, length ps + 2)\<rparr>
            (ps @ [x2, y2]) cs ps sl2 so2 = Success 200 e2"
  shows "e_total e2 = e_total e"
proof -
  from page_total[OF num r1]
  have "e_total e = Some (int (length (matching db rel cs ps)))"
    by (simp add: matching_append[OF num])
  moreover from page_total[OF num r2]
  have "e_total e2 = Some (int (length (matching db rel cs ps)))"
    by (simp add: matching_append[OF num])
  ultimately show ?thesis by simp
qed

lemma paginate_unfold:
  "paginate db env rel f limit offset =
     respond_page db env rel
       \<lparr>where_clause = fst f, limit_offset = Some (length (snd f) + 1, length (snd f) + 2)\<rparr>
       (snd f @ [or_default limit 50, or_default offset 0]) (fst f) (snd f)
       (parseInt_of limit 50) (parseInt_of offset 0)"
  by (cases f) (simp add: paginate_def Let_def slice_off_two_append)

lemma next_placeholder: "{1..k} \<union> {Suc k} = {1..Suc k}"
  by (simp only: set_eq_iff Un_iff atLeastAtMost_iff insert_iff empty_iff) arith

lemma numbered_empty: "numbered ([], [])"
  by (simp add: numbered_def)

lemma numbered_push_search: "numbered f \<Longrightarrow> numbered (push_search a b s f)"
  using next_placeholder[of "length (snd f)"]
  by (cases f) (auto simp: numbered_def push_search_def)

lemma numbered_push_equals: "numbered f \<Longrightarrow> numbered (push_equals a v f)"
  using next_placeholder[of "length (snd f)"]
  by (cases f) (auto simp: numbered_def push_equals_def)

lemma numbered_push_active: "numbered f \<Longrightarrow> numbered (push_active v f)"
  using next_placeholder[of "length (snd f)"]
  by (cases f) (auto simp: numbered_def push_active_def split: option.splits)

lemma numbered_orders: "numbered (orders_filters q)"
  unfolding orders_filters_def
  by (intro numbered_push_equals numbered_push_search numbered_empty)

lemma numbered_products: "numbered (products_filters q)"
  unfolding products_filters_def
  by (intro numbered_push_active numbered_push_equals numbered_push_search numbered_empty)

lemma numbered_customers: "numbered (customers_filters q)"
  unfolding customers_filters_def
  by (intro numbered_push_equals numbered_push_search numbered_empty)

lemma numbered_threat:
  "set (concat (map placeholders (threat_condition q))) = {1..length (threat_value q)}"
  by (simp add: threat_condition_def threat_value_def)

lemma threat_ignores_page:
  "threat_condition (q\<lparr>kq_limit := l, kq_offset := off\<rparr>) = threat_condition q"
  "threat_value (q\<lparr>kq_limit := l, kq_offset := off\<rparr>) = threat_value q"
  by (simp_all add: threat_condition_def threat_value_def)

lemma orders_filters_ignores_page:
  "orders_filters (q\<lparr>oq_limit := l, oq_offset := off\<rparr>) = orders_filters q"
  by (simp add: orders_filters_def)

lemma products_filters_ignores_page:
  "products_filters (q\<lparr>pq_limit := l, pq_offset := off\<rparr>) = products_filters q"
  by (simp add: products_filters_def)

lemma customers_filters_ignores_page:
  "customers_filters (q\<lparr>cq_limit := l, cq_offset := off\<rparr>) = customers_filters q"
  by (simp add: customers_filters_def)

lemma get_orders_total:
  "(get_orders db env qo os cs = Success 200 eo \<longrightarrow>
      (let found = matching db (orders_relation os cs) (fst (orders_filters qo))
                     (snd (orders_filters qo) @ [or_default (oq_limit qo) 50, or_default (oq_offset qo) 0])
       in e_total eo = Some (int (length found)) \<and>
          (\<exists>n m. as_bigint db (or_default (oq_limit qo) 50) = Some n \<and> 0 \<le> n \<and>
                 as_bigint db (or_default (oq_offset qo) 0) = Some m \<and> 0 \<le> m \<and>
                 e_data eo = take (nat n) (drop (nat m) (rel_order (orders_relation os cs) found))))) \<and>
   (get_orders db env qo os cs = Success 200 eo \<and>
    get_orders db env2 (qo\<lparr>oq_limit := limit2, oq_offset := offset2\<rparr>) os cs = Success 200 eo2 \<longrightarrow>
      e_total eo2 = e_total eo) \<and>
   (faults env 0 = None \<and> faults env 1 = None \<and>
    as_bigint db (or_default (oq_limit qo) 50) = Some n \<and> 0 \<le> n \<and>
    as_bigint db (or_default (oq_offset qo) 0) = Some m \<and> 0 \<le> m \<longrightarrow>
      (\<exists>e. get_orders db env qo os cs = Success 200 e))"
proof (intro conjI impI)
  assume a: "get_orders db env qo os cs = Success 200 eo"
  note run = a[unfolded get_orders_def paginate_unfold]
  from page_total[OF numbered_orders[unfolded numbered_def] run]
  show "(let found = matching db (orders_relation os cs) (fst (orders_filters qo))
                     (snd (orders_filters qo) @ [or_default (oq_limit qo) 50, or_default (oq_offset qo) 0])
       in e_total eo = Some (int (length found)) \<and>
          (\<exists>n m. as_bigint db (or_default (oq_limit qo) 50) = Some n \<and> 0 \<le> n \<and>
                 as_bigint db (or_default (oq_offset qo) 0) = Some m \<and> 0 \<le> m \<and>
                 e_data eo = take (nat n) (drop (nat m) (rel_order (orders_relation os cs) found))))"
    unfolding Let_def by blast
next
  assume both: "get_orders db env qo os cs = Success 200 eo \<and>
    get_orders db env2 (qo\<lparr>oq_limit := limit2, oq_offset := offset2\<rparr>) os cs = Success 200 eo2"
  note r1 = both[THEN conjunct1, unfolded get_orders_def paginate_unfold]
  note r2 = both[THEN conjunct2, unfolded get_orders_def paginate_unfold orders_filters_ignores_page]
  from page_independent[OF numbered_orders[unfolded numbered_def] r1 r2]
  show "e_total eo2 = e_total eo" .
next
  assume ok: "faults env 0 = None \<and> faults env 1 = None \<and>
    as_bigint db (or_default (oq_limit qo) 50) = Some n \<and> 0 \<le> n \<and>
    as_bigint db (or_default (oq_offset qo) 0) = Some m \<and> 0 \<le> m"
  then have "faults env 0 = None" "faults env 1 = None"
    "as_bigint db (or_default (oq_limit qo) 50) = Some n" "0 \<le> n"
    "as_bigint db (or_default (oq_offset qo) 0) = Some m" "0 \<le> m" by simp_all
  from page_succeeds[OF numbered_orders[unfolded numbered_def] this]
  show "\<exists>e. get_orders db env qo os cs = Success 200 e"
    unfolding get_orders_def paginate_unfold .
qed

lemma get_products_total:
  "(get_products db env qp ps = Success 200 ep \<longrightarrow>
      (let found = matching db (products_relation ps) (fst (products_filters qp))
                     (snd (products_filters qp) @ [or_default (pq_limit qp) 50, or_default (pq_offset qp) 0])
       in e_total ep = Some (int (length found)) \<and>
          (\<exists>n m. as_bigint db (or_default (pq_limit qp) 50) = Some n \<and> 0 \<le> n \<and>
                 as_bigint db (or_default (pq_offset qp) 0) = Some m \<and> 0 \<le> m \<and>
                 e_data ep = take (nat n) (drop (nat m) (rel_order (products_relation ps) found))))) \<and>
   (get_products db env qp ps = Success 200 ep \<and>
    get_products db env2 (qp\<lparr>pq_limit := limit2, pq_offset := offset2\<rparr>) ps = Success 200 ep2 \<longrightarrow>
      e_total ep2 = e_total ep) \<and>
   (faults env 0 = None \<and> faults env 1 = None \<and>
    as_bigint db (or_default (pq_limit qp) 50) = Some n \<and> 0 \<le> n \<and>
    as_bigint db (or_default (pq_offset qp) 0) = Some m \<and> 0 \<le> m \<longrightarrow>
      (\<exists>e. get_products db env qp ps = Success 200 e))"
proof (intro conjI impI)
  assume a: "get_products db env qp ps = Success 200 ep"
  note run = a[unfolded get_products_def paginate_unfold]
  from page_total[OF numbered_products[unfolded numbered_def] run]
  show "(let found = matching db (products_relation ps) (fst (products_filters qp))
                     (snd (products_filters qp) @ [or_default (pq_limit qp) 50, or_default (pq_offset qp) 0])
       in e_total ep = Some (int (length found)) \<and>
          (\<exists>n m. as_bigint db (or_default (pq_limit qp) 50) = Some n \<and> 0 \<le> n \<and>
                 as_bigint db (or_default (pq_offset qp) 0) = Some m \<and> 0 \<le> m \<and>
                 e_data ep = take (nat n) (drop (nat m) (rel_order (products_relation ps) found))))"
    unfolding Let_def by blast
next
  assume both: "get_products db env qp ps = Success 200 ep \<and>
    get_products db env2 (qp\<lparr>pq_limit := limit2, pq_offset := offset2\<rparr>) ps = Success 200 ep2"
  note r1 = both[THEN conjunct1, unfolded get_products_def paginate_unfold]
  note r2 = both[THEN conjunct2, unfolded get_products_def paginate_unfold products_filters_ignores_page]
  from page_independent[OF numbered_products[unfolded numbered_def] r1 r2]
  show "e_total ep2 = e_total ep" .
next
  assume ok: "faults env 0 = None \<and> faults env 1 = None \<and>
    as_bigint db (or_default (pq_limit qp) 50) = Some n \<and> 0 \<le> n \<and>
    as_bigint db (or_default (pq_offset qp) 0) = Some m \<and> 0 \<le> m"
  then have "faults env 0 = None" "faults env 1 = None"
    "as_bigint db (or_default (pq_limit qp) 50) = Some n" "0 \<le> n"
    "as_bigint db (or_default (pq_offset qp) 0) = Some m" "0 \<le> m" by simp_all
  from page_succeeds[OF numbered_products[unfolded numbered_def] this]
  show "\<exists>e. get_products db env qp ps = Success 200 e"
    unfolding get_products_def paginate_unfold .
qed

lemma get_customers_total:
  "(get_customers db env qc cs = Success 200 ec \<longrightarrow>
      (let found = matching db (customers_relation cs) (fst (customers_filters qc))
                     (snd (customers_filters qc) @ [or_default (cq_limit qc) 50, or_default (cq_offset qc) 0])
       in e_total ec = Some (int (length found)) \<and>
          (\<exists>n m. as_bigint db (or_default (cq_limit qc) 50) = Some n \<and> 0 \<le> n \<and>
                 as_bigint db (or_default (cq_offset qc) 0) = Some m \<and> 0 \<le> m \<and>
                 e_data ec = take (nat n) (drop (nat m) (rel_order (customers_relation cs) found))))) \<and>
   (get_customers db env qc cs = Success 200 ec \<and>
    get_customers db env2 (qc\<lparr>cq_limit := limit2, cq_offset := offset2\<rparr>) cs = Success 200 ec2 \<longrightarrow>
      e_total ec2 = e_total ec) \<and>
   (faults env 0 = None \<and> faults env 1 = None \<and>
    as_bigint db (or_default (cq_limit qc) 50) = Some n \<and> 0 \<le> n \<and>
    as_bigint db (or_default (cq_offset qc) 0) = Some m \<and> 0 \<le> m \<longrightarrow>
      (\<exists>e. get_customers db env qc cs = Success 200 e))"
proof (intro conjI impI)
  assume a: "get_customers db env qc cs = Success 200 ec"
  note run = a[unfolded get_customers_def paginate_unfold]
  from page_total[OF numbered_customers[unfolded numbered_def] run]
  show "(let found = matching db (customers_relation cs) (fst (customers_filters qc))
                     (snd (customers_filters qc) @ [or_default (cq_limit qc) 50, or_default (cq_offset qc) 0])
       in e_total ec = Some (int (length found)) \<and>
          (\<exists>n m. as_bigint db (or_default (cq_limit qc) 50) = Some n \<and> 0 \<le> n \<and>
                 as_bigint db (or_default (cq_offset qc) 0) = Some m \<and> 0 \<le> m \<and>
                 e_data ec = take (nat n) (drop (nat m) (rel_order (customers_relation cs) found))))"
    unfolding Let_def by blast
next
  assume both: "get_customers db env qc cs = Success 200 ec \<and>
    get_customers db env2 (qc\<lparr>cq_limit := limit2, cq_offset := offset2\<rparr>) cs = Success 200 ec2"
  note r1 = both[THEN conjunct1, unfolded get_customers_def paginate_unfold]
  note r2 = both[THEN conjunct2, unfolded get_customers_def paginate_unfold customers_filters_ignores_page]
  from page_independent[OF numbered_customers[unfolded numbered_def] r1 r2]
  show "e_total ec2 = e_total ec" .
next
  assume ok: "faults env 0 = None \<and> faults env 1 = None \<and>
    as_bigint db (or_default (cq_limit qc) 50) = Some n \<and> 0 \<le> n \<and>
    as_bigint db (or_default (cq_offset qc) 0) = Some m \<and> 0 \<le> m"
  then have "faults env 0 = None" "faults env 1 = None"
    "as_bigint db (or_default (cq_limit qc) 50) = Some n" "0 \<le> n"
    "as_bigint db (or_default (cq_offset qc) 0) = Some m" "0 \<le> m" by simp_all
  from page_succeeds[OF numbered_customers[unfolded numbered_def] this]
  show "\<exists>e. get_customers db env qc cs = Success 200 e"
    unfolding get_customers_def paginate_unfold .
qed

lemma get_competitors_total:
  "(get_competitors db env qk ks = Success 200 ek \<longrightarrow>
      (let found = matching db (competitors_relation ks) (threat_condition qk)
                     (threat_value qk @ [or_default (kq_limit qk) 20, or_default (kq_offset qk) 0])
       in e_total ek = Some (int (length found)) \<and>
          (\<exists>n m. as_bigint db (or_default (kq_limit qk) 20) = Some n \<and> 0 \<le> n \<and>
                 as_bigint db (or_default (kq_offset qk) 0) = Some m \<and> 0 \<le> m \<and>
                 e_data ek = take (nat n) (drop (nat m) (rel_order (competitors_relation ks) found))))) \<and>
   (get_competitors db env qk ks = Success 200 ek \<and>
    get_competitors db env2 (qk\<lparr>kq_limit := limit2, kq_offset := offset2\<rparr>) ks = Success 200 ek2 \<longrightarrow>
      e_total ek2 = e_total ek) \<and>
   (faults env 0 = None \<and> faults env 1 = None \<and>
    as_bigint db (or_default (kq_limit qk) 20) = Some n \<and> 0 \<le> n \<and>
    as_bigint db (or_default (kq_offset qk) 0) = Some m \<and> 0 \<le> m \<longrightarrow>
      (\<exists>e. get_competitors db env qk ks = Success 200 e))"
proof (intro conjI impI)
  assume a: "get_competitors db env qk ks = Success 200 ek"
  note run = a[unfolded get_competitors_def Let_def]
  from page_total[OF numbered_threat run]
  show "(let found = matching db (competitors_relation ks) (threat_condition qk)
                     (threat_value qk @ [or_default (kq_limit qk) 20, or_default (kq_offset qk) 0])
       in e_total ek = Some (int (length found)) \<and>
          (\<exists>n m. as_bigint db (or_default (kq_limit qk) 20) = Some n \<and> 0 \<le> n \<and>
                 as_bigint db (or_default (kq_offset qk) 0) = Some m \<and> 0 \<le> m \<and>
                 e_data ek = take (nat n) (drop (nat m) (rel_order (competitors_relation ks) found))))"
    unfolding Let_def by blast
next
  assume both: "get_competitors db env qk ks = Success 200 ek \<and>
    get_competitors db env2 (qk\<lparr>kq_limit := limit2, kq_offset := offset2\<rparr>) ks = Success 200 ek2"
  note r1 = both[THEN conjunct1, unfolded get_competitors_def Let_def]
  note r2 = both[THEN conjunct2, unfolded get_competitors_def Let_def threat_ignores_page]
  from page_independent[OF numbered_threat r1 r2]
  show "e_total ek2 = e_total ek" .
next
  assume ok: "faults env 0 = None \<and> faults env 1 = None \<and>
    as_bigint db (or_default (kq_limit qk) 20) = Some n \<and> 0 \<le> n \<and>
    as_bigint db (or_default (kq_offset qk) 0) = Some m \<and> 0 \<le> m"
  then have "faults env 0 = None" "faults env 1 = None"
    "as_bigint db (or_default (kq_limit qk) 20) = Some n" "0 \<le> n"
    "as_bigint db (or_default (kq_offset qk) 0) = Some m" "0 \<le> m" by simp_all
  from page_succeeds[OF numbered_threat this]
  show "\<exists>e. get_competitors db env qk ks = Success 200 e"
    unfolding get_competitors_def Let_def .
qed

subsection \<open>The total of the envelope\<close>

lemma respond_page_value:
  assumes num: "set (concat (map placeholders cs)) = {1..length ps}"
    and ok: "faults env 0 = None" "faults env 1 = None"
    and lim: "as_bigint db x = Some n" "0 \<le> n" and off: "as_bigint db y = Some m" "0 \<le> m"
  shows "respond_page db env rel
           \<lparr>where_clause = cs, limit_offset = Some (length ps + 1, length ps + 2)\<rparr>
           (ps @ [x, y]) cs ps sl so =
         Success 200
           \<lparr>e_data = take (nat n) (drop (nat m) (rel_order rel (matching db rel cs (ps @ [x, y])))),
            e_total = Some (int (length (matching db rel cs (ps @ [x, y])))),
            e_limit = sl, e_offset = so\<rparr>"
proof -
  have count: "select_count db rel cs ps = Inr (length (matching db rel cs (ps @ [x, y])))"
    by (rule select_count_total[OF num])
  show ?thesis
    unfolding respond_page_def pool_query_def select_rows_page[OF num] count
    using ok lim off by (simp add: parseInt_decimal)
qed

lemma example_filters:
  "products_filters example_query =
     ([ILikeEither ''name'' ''description'' 1, Equals ''active'' 2],
      [SText ''%espresso%'', SBool True])"
  by (simp add: products_filters_def push_search_def push_equals_def push_active_def falsy_def
      or_else_def example_query_def)

lemma example_ilike:
  "ilike example_dbms ''Espresso'' ''%espresso%''"
  "ilike example_dbms ''Short and strong'' ''%espresso%'' = False"
  "ilike example_dbms ''Bagel'' ''%espresso%'' = False"
  "ilike example_dbms ''Latte'' ''%espresso%'' = False"
  "ilike example_dbms ''Espresso with milk'' ''%espresso%''"
  "ilike example_dbms ''Espresso cup'' ''%espresso%''"
  "ilike example_dbms ''Porcelain'' ''%espresso%'' = False"
  by (simp_all add: example_dbms_def lowerChar_def)

lemma example_matching:
  "matching example_dbms (products_relation example_products)
     (fst (products_filters example_query))
     (snd (products_filters example_query) @ [SText ''1'', SText ''5'']) =
   [example_products ! 0, example_products ! 2]"
  unfolding example_filters
  by (simp add: matching_def products_relation_def example_products_def product_column_def
      nullable_text_def param_def sql_or_def sql_and_def sql_ilike_def sql_equals_def
      example_ilike)

lemma example_numbers:
  "decimal_text ''1'' = Some 1" "decimal_text ''5'' = Some 5"
  "parseInt ''1'' = Some 1" "parseInt ''5'' = Some 5"
  by (simp_all add: decimal_text_def parseInt_def digits_value_def digit_value_def hex_value_def
      js_whitespace_def Let_def)

lemma example_page:
  "get_products example_dbms example_env example_query example_products =
     Success 200 \<lparr>e_data = [], e_total = Some 2, e_limit = Some 1, e_offset = Some 5\<rparr>"
proof -
  have params: "or_default (pq_limit example_query) 50 = SText ''1''"
    "or_default (pq_offset example_query) 0 = SText ''5''"
    "parseInt_of (pq_limit example_query) 50 = Some 1"
    "parseInt_of (pq_offset example_query) 0 = Some 5"
    by (simp_all add: or_default_def parseInt_of_def example_query_def example_numbers)
  have ok: "faults example_env 0 = None" "faults example_env 1 = None"
    by (simp_all add: example_env_def no_faults_def)
  have big: "as_bigint example_dbms (SText ''1'') = Some 1" "(0::int) \<le> 1"
    "as_bigint example_dbms (SText ''5'') = Some 5" "(0::int) \<le> 5"
    by (simp_all add: as_bigint_def example_dbms_def example_numbers)
  show ?thesis
    unfolding get_products_def paginate_unfold params
      respond_page_value[OF numbered_products[unfolded numbered_def] ok big] example_matching
    by (simp add: products_relation_def newest_first_def)
qed

text \<open>
  C1: in every list handler the \<open>total\<close> of a success envelope is the number of rows for
  which the \<open>WHERE\<close> clause of the page query is true, evaluated with the values bound to
  the page query, and \<open>data\<close> is a slice of those same rows in order, whatever its
  length; the count query gets the filter values alone, so the total is the same for every
  \<open>limit\<close> and \<open>offset\<close>; and the envelope is sent whenever neither query is failed by
  the database and \<open>limit\<close> and \<open>offset\<close> read as integers that are not negative.
\<close>

theorem list_total_counts_matching_rows:
  "(get_orders db env qo os cs = Success 200 eo \<longrightarrow>
      (let found = matching db (orders_relation os cs) (fst (orders_filters qo))
                     (snd (orders_filters qo) @ [or_default (oq_limit qo) 50, or_default (oq_offset qo) 0])
       in e_total eo = Some (int (length found)) \<and>
          (\<exists>n m. as_bigint db (or_default (oq_limit qo) 50) = Some n \<and> 0 \<le> n \<and>
                 as_bigint db (or_default (oq_offset qo) 0) = Some m \<and> 0 \<le> m \<and>
                 e_data eo = take (nat n) (drop (nat m) (rel_order (orders_relation os cs) found))))) \<and>
   (get_orders db env qo os cs = Success 200 eo \<and>
    get_orders db env2 (qo\<lparr>oq_limit := limit2, oq_offset := offset2\<rparr>) os cs = Success 200 eo2 \<longrightarrow>
      e_total eo2 = e_total eo) \<and>
   (faults env 0 = None \<and> faults env 1 = None \<and>
    as_bigint db (or_default (oq_limit qo) 50) = Some n \<and> 0 \<le> n \<and>
    as_bigint db (or_default (oq_offset qo) 0) = Some m \<and> 0 \<le> m \<longrightarrow>
      (\<exists>e. get_orders db env qo os cs = Success 200 e)) \<and>
   (get_products db env qp ps = Success 200 ep \<longrightarrow>
      (let found = matching db (products_relation ps) (fst (products_filters qp))
                     (snd (products_filters qp) @ [or_default (pq_limit qp) 50, or_default (pq_offset qp) 0])
       in e_total ep = Some (int (length found)) \<and>
          (\<exists>n m. as_bigint db (or_default (pq_limit qp) 50) = Some n \<and> 0 \<le> n \<and>
                 as_bigint db (or_default (pq_offset qp) 0) = Some m \<and> 0 \<le> m \<and>
                 e_data ep = take (nat n) (drop (nat m) (rel_order (products_relation ps) found))))) \<and>
   (get_products db env qp ps = Success 200 ep \<and>
    get_products db env2 (qp\<lparr>pq_limit := limit2, pq_offset := offset2\<rparr>) ps = Success 200 ep2 \<longrightarrow>
      e_total ep2 = e_total ep) \<and>
   (faults env 0 = None \<and> faults env 1 = None \<and>
    as_bigint db (or_default (pq_limit qp) 50) = Some n \<and> 0 \<le> n \<and>
    as_bigint db (or_default (pq_offset qp) 0) = Some m \<and> 0 \<le> m \<longrightarrow>
      (\<exists>e. get_products db env qp ps = Success 200 e)) \<and>
   (get_customers db env qc cs = Success 200 ec \<longrightarrow>
      (let found = matching db (customers_relation cs) (fst (customers_filters qc))
                     (snd (customers_filters qc) @ [or_default (cq_limit qc) 50, or_default (cq_offset qc) 0])
       in e_total ec = Some (int (length found)) \<and>
          (\<exists>n m. as_bigint db (or_default (cq_limit qc) 50) = Some n \<and> 0 \<le> n \<and>
                 as_bigint db (or_default (cq_offset qc) 0) = Some m \<and> 0 \<le> m \<and>
                 e_data ec = take (nat n) (drop (nat m) (rel_order (customers_relation cs) found))))) \<and>
   (get_customers db env qc cs = Success 200 ec \<and>
    get_customers db env2 (qc\<lparr>cq_limit := limit2, cq_offset := offset2\<rparr>) cs = Success 200 ec2 \<longrightarrow>
      e_total ec2 = e_total ec) \<and>
   (faults env 0 = None \<and> faults env 1 = None \<and>
    as_bigint db (or_default (cq_limit qc) 50) = Some n \<and> 0 \<le> n \<and>
    as_bigint db (or_default (cq_offset qc) 0) = Some m \<and> 0 \<le> m \<longrightarrow>
      (\<exists>e. get_customers db env qc cs = Success 200 e)) \<and>
   (get_competitors db env qk ks = Success 200 ek \<longrightarrow>
      (let found = matching db (competitors_relation ks) (threat_condition qk)
                     (threat_value qk @ [or_default (kq_limit qk) 20, or_default (kq_offset qk) 0])
       in e_total ek = Some (int (length found)) \<and>
          (\<exists>n m. as_bigint db (or_default (kq_limit qk) 20) = Some n \<and> 0 \<le> n \<and>
                 as_bigint db (or_default (kq_offset qk) 0) = Some m \<and> 0 \<le> m \<and>
                 e_data ek = take (nat n) (drop (nat m) (rel_order (competitors_relation ks) found))))) \<and>
   (get_competitors db env qk ks = Success 200 ek \<and>
    get_competitors db env2 (qk\<lparr>kq_limit := limit2, kq_offset := offset2\<rparr>) ks = Success 200 ek2 \<longrightarrow>
      e_total ek2 = e_total ek) \<and>
   (faults env 0 = None \<and> faults env 1 = None \<and>
    as_bigint db (or_default (kq_limit qk) 20) = Some n \<and> 0 \<le> n \<and>
    as_bigint db (or_default (kq_offset qk) 0) = Some m \<and> 0 \<le> m \<longrightarrow>
      (\<exists>e. get_competitors db env qk ks = Success 200 e))"
  by (intro conjI get_orders_total[THEN conjunct1] get_orders_total[THEN conjunct2, THEN conjunct1]
      get_orders_total[THEN conjunct2, THEN conjunct2]
      get_products_total[THEN conjunct1] get_products_total[THEN conjunct2, THEN conjunct1]
      get_products_total[THEN conjunct2, THEN conjunct2]
      get_customers_total[THEN conjunct1] get_customers_total[THEN conjunct2, THEN conjunct1]
      get_customers_total[THEN conjunct2, THEN conjunct2]
      get_competitors_total[THEN conjunct1] get_competitors_total[THEN conjunct2, THEN conjunct1]
      get_competitors_total[THEN conjunct2, THEN conjunct2])

lemma example_page_wide:
  "get_products example_dbms later_env (example_query\<lparr>pq_limit := Some ''10'', pq_offset := None\<rparr>)
     example_products =
     Success 200 \<lparr>e_data = [example_products ! 2, example_products ! 0], e_total = Some 2,
                  e_limit = Some 10, e_offset = Some 0\<rparr>"
proof -
  let ?q = "example_query\<lparr>pq_limit := Some ''10'', pq_offset := None\<rparr>"
  have params: "or_default (pq_limit ?q) 50 = SText ''10''"
    "or_default (pq_offset ?q) 0 = SInteger 0"
    "parseInt_of (pq_limit ?q) 50 = Some 10"
    "parseInt_of (pq_offset ?q) 0 = Some 0"
    using parseInt_decimal[of 0]
    by (simp_all add: or_default_def parseInt_of_def parseInt_def digits_value_def digit_value_def
        hex_value_def js_whitespace_def Let_def)
  have ok: "faults later_env 0 = None" "faults later_env 1 = None"
    by (simp_all add: later_env_def example_env_def no_faults_def)
  have big: "as_bigint example_dbms (SText ''10'') = Some 10" "(0::int) \<le> 10"
    "as_bigint example_dbms (SInteger 0) = Some 0" "(0::int) \<le> 0"
    by (simp_all add: as_bigint_def example_dbms_def decimal_text_def digits_value_def
        digit_value_def hex_value_def Let_def)
  note num = numbered_products[of example_query, unfolded numbered_def]
  have same: "matching example_dbms (products_relation example_products)
     (fst (products_filters example_query))
     (snd (products_filters example_query) @ [SText ''10'', SInteger 0]) =
     [example_products ! 0, example_products ! 2]"
    using example_matching by (simp add: matching_append[OF num])
  show ?thesis
    unfolding get_products_def paginate_unfold params products_filters_ignores_page
      respond_page_value[OF num ok big] same
    by (simp add: products_relation_def newest_first_def example_products_def)
qed

text \<open>
  Products matching \<open>espresso\<close> that are active: two of four. With \<open>limit=1&offset=5\<close>
  the page is empty and the total is 2; with \<open>limit=10\<close> and no offset both rows are on the
  page, newest first, and the total is 2 again.
\<close>

theorem list_total_counts_matching_rows_witness:
  "get_products example_dbms example_env example_query example_products =
     Success 200 \<lparr>e_data = [], e_total = Some 2, e_limit = Some 1, e_offset = Some 5\<rparr> \<and>
   get_products example_dbms later_env
     (example_query\<lparr>pq_limit := Some ''10'', pq_offset := None\<rparr>) example_products =
     Success 200 \<lparr>e_data = [example_products ! 2, example_products ! 0], e_total = Some 2,
                  e_limit = Some 10, e_offset = Some 0\<rparr> \<and>
   length (matching example_dbms (products_relation example_products)
             (fst (products_filters example_query))
             (snd (products_filters example_query) @
              [or_default (pq_limit example_query) 50, or_default (pq_offset example_query) 0])) = 2"
proof -
  note t = list_total_counts_matching_rows
    [where db = example_dbms and env = example_env and qp = example_query
       and ps = example_products
       and ep = "\<lparr>e_data = [], e_total = Some 2, e_limit = Some 1, e_offset = Some 5\<rparr>"]
  from t example_page
  have "e_total \<lparr>e_data = ([]::product_row list), e_total = Some 2, e_limit = Some 1, e_offset = Some 5\<rparr> =
        Some (int (length (matching example_dbms (products_relation example_products)
             (fst (products_filters example_query))
             (snd (products_filters example_query) @
              [or_default (pq_limit example_query) 50, or_default (pq_offset example_query) 0]))))"
    unfolding Let_def by blast
  then have "length (matching example_dbms (products_relation example_products)
             (fst (products_filters example_query))
             (snd (products_filters example_query) @
              [or_default (pq_limit example_query) 50, or_default (pq_offset example_query) 0])) = 2"
    by simp
  with example_page example_page_wide show ?thesis by simp
qed

end
